theory Spec2Isabelle
  imports Main "HOL-Library.Word" "HOL-Library.Char_ord" "HOL-Library.Product_Lexorder"
begin

unbundle bit_operations_syntax

section \<open>Go values used by the payment gateway\<close>

subsection \<open>Errors\<close>

text \<open>
  A Go \<open>error\<close> is either a plain message (\<open>errors.New(msg)\<close>, or \<open>fmt.Errorf\<close> with no
  \<open>%w\<close> verb, which yields the formatted message) or a message prefix wrapping another
  error (\<open>fmt.Errorf("prefix: %w", err)\<close>). A function returning \<open>error\<close> returns
  \<open>error option\<close> here, \<open>None\<close> being \<open>nil\<close>; a function returning \<open>(*T, error)\<close> with
  exactly one of the two set returns \<open>error + T\<close>.
\<close>

datatype error = errors_New string | fmt_Errorf_w string error

primrec Error :: "error \<Rightarrow> string" where
  "Error (errors_New msg) = msg"
| "Error (fmt_Errorf_w prefix err) = prefix @ Error err"

primrec Unwrap :: "error \<Rightarrow> error option" where
  "Unwrap (errors_New msg) = None"
| "Unwrap (fmt_Errorf_w prefix err) = Some err"

text \<open>\<open>errors.Is(err, target)\<close>: \<open>target\<close> occurs on the unwrap chain of \<open>err\<close>.\<close>

primrec errors_Is :: "error \<Rightarrow> error \<Rightarrow> bool" where
  "errors_Is (errors_New msg) target = (errors_New msg = target)"
| "errors_Is (fmt_Errorf_w prefix err) target =
     (fmt_Errorf_w prefix err = target \<or> errors_Is err target)"

text \<open>The sentinel errors of package \<open>domain\<close>.\<close>

definition ErrCardNumberRequired :: error where
  "ErrCardNumberRequired = errors_New ''card number is required''"

definition ErrCardNumberInvalid :: error where
  "ErrCardNumberInvalid = errors_New ''card number must be between 14-19 digits''"

definition ErrCardNumberNotNumeric :: error where
  "ErrCardNumberNotNumeric = errors_New ''card number must only contain numeric characters''"

definition ErrCVVRequired :: error where
  "ErrCVVRequired = errors_New ''CVV is required''"

definition ErrCVVInvalid :: error where
  "ErrCVVInvalid = errors_New ''CVV must be 3-4 digits''"

definition ErrCVVNotNumeric :: error where
  "ErrCVVNotNumeric = errors_New ''CVV must only contain numeric characters''"

definition ErrExpiryMonthRequired :: error where
  "ErrExpiryMonthRequired = errors_New ''expiry month is required''"

definition ErrExpiryMonthInvalid :: error where
  "ErrExpiryMonthInvalid = errors_New ''expiry month must be between 1-12''"

definition ErrExpiryYearRequired :: error where
  "ErrExpiryYearRequired = errors_New ''expiry year is required''"

definition ErrExpiryDateInPast :: error where
  "ErrExpiryDateInPast = errors_New ''expiry date must be in the future''"

definition ErrCurrencyRequired :: error where
  "ErrCurrencyRequired = errors_New ''currency is required''"

definition ErrCurrencyInvalid :: error where
  "ErrCurrencyInvalid =
     errors_New ''currency must be a valid 3-character ISO code (USD, GBP, EUR)''"

definition ErrAmountRequired :: error where
  "ErrAmountRequired = errors_New ''amount is required''"

definition ErrAmountInvalid :: error where
  "ErrAmountInvalid = errors_New ''amount must be a positive integer''"

definition ErrPaymentNotFound :: error where
  "ErrPaymentNotFound = errors_New ''payment not found''"

subsection \<open>\<open>strconv.ParseUint(s, 10, 64)\<close>\<close>

text \<open>
  The standard library's parser, at base 10 and bit size 64, the only way the gateway
  calls it. It walks the bytes of the string: a byte other than \<open>'0'..'9'\<close> is a syntax
  error (a letter would be a digit of a larger base, and is refused as not below the
  base), and the accumulator is checked against 64-bit overflow before the
  multiplication and after the addition, which wraps at \<open>2^64\<close>.
\<close>

datatype NumError = ErrSyntax | ErrRange

definition isDigit :: "char \<Rightarrow> bool" where
  "isDigit c \<longleftrightarrow> CHR ''0'' \<le> c \<and> c \<le> CHR ''9''"

definition maxUint64 :: nat where
  "maxUint64 = 2 ^ 64 - 1"

definition cutoff :: nat where
  "cutoff = maxUint64 div 10 + 1"

fun ParseUint_loop :: "nat \<Rightarrow> string \<Rightarrow> NumError + nat" where
  "ParseUint_loop n [] = Inr n"
| "ParseUint_loop n (c # cs) =
     (if isDigit c then
        (let d = of_char c - of_char CHR ''0'' in
         if n \<ge> cutoff then Inl ErrRange
         else
           (let n10 = n * 10; n1 = (n10 + d) mod 2 ^ 64 in
            if n1 < n10 \<or> n1 > maxUint64 then Inl ErrRange
            else ParseUint_loop n1 cs))
      else Inl ErrSyntax)"

definition ParseUint :: "string \<Rightarrow> NumError + nat" where
  "ParseUint s = (if s = [] then Inl ErrSyntax else ParseUint_loop 0 s)"

section \<open>Package domain: the card\<close>

record Card =
  Number :: string
  ExpiryMonth :: int
  ExpiryYear :: int
  CVV :: string

text \<open>
  The part of \<open>time.Time\<close> the gateway reads from \<open>time.Now()\<close>: the calendar year, the
  month (1 to 12) and the day of the month.
\<close>

record Time =
  Year :: int
  Month :: int
  Day :: int

definition isNumeric :: "string \<Rightarrow> bool" where
  "isNumeric s = (case ParseUint s of Inr _ \<Rightarrow> True | Inl _ \<Rightarrow> False)"

definition validateCardNumber :: "Card \<Rightarrow> error option" where
  "validateCardNumber c =
     (if Number c = [] then Some ErrCardNumberRequired
      else if length (Number c) < 14 \<or> length (Number c) > 19 then Some ErrCardNumberInvalid
      else if \<not> isNumeric (Number c) then Some ErrCardNumberNotNumeric
      else None)"

definition validateExpiry :: "Time \<Rightarrow> Card \<Rightarrow> error option" where
  "validateExpiry now c =
     (if ExpiryMonth c = 0 then Some ErrExpiryMonthRequired
      else if ExpiryMonth c < 1 \<or> ExpiryMonth c > 12 then Some ErrExpiryMonthInvalid
      else if ExpiryYear c = 0 then Some ErrExpiryYearRequired
      else
        (let currentYear = Year now; currentMonth = Month now in
         if ExpiryYear c < currentYear then Some ErrExpiryDateInPast
         else if ExpiryYear c = currentYear \<and> ExpiryMonth c < currentMonth
           then Some ErrExpiryDateInPast
         else None))"

definition validateCVV :: "Card \<Rightarrow> error option" where
  "validateCVV c =
     (if CVV c = [] then Some ErrCVVRequired
      else if length (CVV c) < 3 \<or> length (CVV c) > 4 then Some ErrCVVInvalid
      else if \<not> isNumeric (CVV c) then Some ErrCVVNotNumeric
      else None)"

definition Card_Validate :: "Time \<Rightarrow> Card \<Rightarrow> error option" where
  "Card_Validate now c =
     (case validateCardNumber c of
        Some err \<Rightarrow> Some err
      | None \<Rightarrow>
          (case validateExpiry now c of
             Some err \<Rightarrow> Some err
           | None \<Rightarrow>
               (case validateCVV c of
                  Some err \<Rightarrow> Some err
                | None \<Rightarrow> None)))"

definition GetLastFourDigits :: "Card \<Rightarrow> string" where
  "GetLastFourDigits c =
     (if length (Number c) < 4 then Number c
      else drop (length (Number c) - 4) (Number c))"

section \<open>Package domain: the payment\<close>

type_synonym PaymentStatus = string

definition StatusAuthorized :: PaymentStatus where
  "StatusAuthorized = ''Authorized''"

definition StatusDeclined :: PaymentStatus where
  "StatusDeclined = ''Declined''"

definition StatusRejected :: PaymentStatus where
  "StatusRejected = ''Rejected''"

text \<open>
  \<open>supportedCurrencies\<close> is a \<open>map[string]bool\<close>; reading a key that is absent gives
  \<open>false\<close>.
\<close>

definition supportedCurrencies :: "string \<rightharpoonup> bool" where
  "supportedCurrencies = map_of [(''USD'', True), (''GBP'', True), (''EUR'', True)]"

definition supportedCurrencies_index :: "string \<Rightarrow> bool" where
  "supportedCurrencies_index k = (case supportedCurrencies k of Some b \<Rightarrow> b | None \<Rightarrow> False)"

record Payment =
  ID :: string
  Card :: Card
  Currency :: string
  Amount :: int
  Status :: PaymentStatus

text \<open>
  \<open>strings.ToUpper\<close>. A string of ASCII bytes only is mapped byte by byte, \<open>'a'..'z'\<close>
  moving down by \<open>'a' - 'A'\<close>, and returned as it is when it has no lower-case letter.
  Any other string goes through \<open>strings.Map(unicode.ToUpper, s)\<close>, whose Unicode case
  tables are not part of the gateway: that mapping is the parameter \<open>mapUpper\<close>.
\<close>

definition isASCII :: "string \<Rightarrow> bool" where
  "isASCII s = list_all (\<lambda>c. of_char c < (128::nat)) s"

definition hasLower :: "string \<Rightarrow> bool" where
  "hasLower s = list_ex (\<lambda>c. CHR ''a'' \<le> c \<and> c \<le> CHR ''z'') s"

definition upperByte :: "char \<Rightarrow> char" where
  "upperByte c =
     (if CHR ''a'' \<le> c \<and> c \<le> CHR ''z'' then char_of (of_char c - (32::nat)) else c)"

definition ToUpper :: "(string \<Rightarrow> string) \<Rightarrow> string \<Rightarrow> string" where
  "ToUpper mapUpper s =
     (if isASCII s then (if \<not> hasLower s then s else map upperByte s)
      else mapUpper s)"

text \<open>
  The methods on \<open>*Payment\<close> that write to the payment return the payment as it is after
  the call, next to their result.
\<close>

definition validateCurrency :: "(string \<Rightarrow> string) \<Rightarrow> Payment \<Rightarrow> error option \<times> Payment" where
  "validateCurrency mapUpper p =
     (if Currency p = [] then (Some ErrCurrencyRequired, p)
      else
        (let currency = ToUpper mapUpper (Currency p) in
         if length currency \<noteq> 3 then (Some ErrCurrencyInvalid, p)
         else if \<not> supportedCurrencies_index currency then (Some ErrCurrencyInvalid, p)
         else (None, p\<lparr>Currency := currency\<rparr>)))"

definition validateAmount :: "Payment \<Rightarrow> error option" where
  "validateAmount p = (if Amount p \<le> 0 then Some ErrAmountInvalid else None)"

definition Validate :: "Time \<Rightarrow> (string \<Rightarrow> string) \<Rightarrow> Payment \<Rightarrow> error option \<times> Payment" where
  "Validate now mapUpper p =
     (case Card_Validate now (Card p) of
        Some err \<Rightarrow> (Some err, p)
      | None \<Rightarrow>
          (case validateCurrency mapUpper p of
             (Some err, p1) \<Rightarrow> (Some err, p1)
           | (None, p1) \<Rightarrow>
               (case validateAmount p1 of
                  Some err \<Rightarrow> (Some err, p1)
                | None \<Rightarrow> (None, p1))))"

definition NewPayment ::
  "Time \<Rightarrow> (string \<Rightarrow> string) \<Rightarrow> Card \<Rightarrow> string \<Rightarrow> int \<Rightarrow> error + Payment" where
  "NewPayment now mapUpper c currency amount =
     (let p = \<lparr>ID = [], Card = c, Currency = currency, Amount = amount,
                Status = StatusRejected\<rparr>
      in case Validate now mapUpper p of
           (Some err, _) \<Rightarrow> Inl err
         | (None, p1) \<Rightarrow> Inr p1)"

definition SetAuthorized :: "Payment \<Rightarrow> Payment" where
  "SetAuthorized p = p\<lparr>Status := StatusAuthorized\<rparr>"

definition SetDeclined :: "Payment \<Rightarrow> Payment" where
  "SetDeclined p = p\<lparr>Status := StatusDeclined\<rparr>"

definition SetRejected :: "Payment \<Rightarrow> Payment" where
  "SetRejected p = p\<lparr>Status := StatusRejected\<rparr>"

section \<open>Package client: the bank adapter\<close>

record BankRequest =
  CardNumber :: string
  ExpiryDate :: string
  req_Currency :: string
  req_Amount :: int
  req_CVV :: string

record BankResponse =
  Authorized :: bool
  AuthorizationCode :: string

text \<open>\<open>fmt\<close>'s verbs \<open>%d\<close> and \<open>%02d\<close> on an \<open>int\<close>: decimal digits, a minus sign for a
  negative number, and for \<open>%02d\<close> zeros up to a width of two, the sign counting.\<close>

fun decimal :: "nat \<Rightarrow> string" where
  "decimal n =
     (if n < 10 then [char_of (48 + n)]
      else decimal (n div 10) @ [char_of (48 + n mod 10)])"

declare decimal.simps [simp del]

definition fmt_d :: "int \<Rightarrow> string" where
  "fmt_d i = (if i < 0 then CHR ''-'' # decimal (nat (- i)) else decimal (nat i))"

definition fmt_02d :: "int \<Rightarrow> string" where
  "fmt_02d i =
     (if i < 0 then CHR ''-'' # decimal (nat (- i))
      else (let ds = decimal (nat i) in if length ds < 2 then CHR ''0'' # ds else ds))"

definition convertTobankRequest :: "Payment \<Rightarrow> BankRequest" where
  "convertTobankRequest payment =
     (let expiryDate =
            fmt_02d (ExpiryMonth (Card payment)) @ ''/'' @ fmt_d (ExpiryYear (Card payment))
      in \<lparr>CardNumber = Number (Card payment), ExpiryDate = expiryDate,
           req_Currency = Currency payment, req_Amount = Amount payment,
           req_CVV = CVV (Card payment)\<rparr>)"

text \<open>
  The adapter's calls out of the gateway: \<open>json.Marshal\<close>, \<open>http.NewRequest\<close>, the HTTP
  client's \<open>Do\<close> (the network, with its ten-second timeout) and \<open>json.Unmarshal\<close> are the
  fields of \<open>HTTPEnv\<close>. A response carries its status code and what \<open>io.ReadAll\<close> gets
  from its body.
\<close>

record HTTPRequest =
  Method :: string
  URL :: string
  Header :: "string \<rightharpoonup> string"
  RequestBody :: string

record HTTPResponse =
  StatusCode :: int
  Body :: "error + string"

record HTTPEnv =
  json_Marshal :: "BankRequest \<Rightarrow> error + string"
  http_NewRequest :: "string \<Rightarrow> string \<Rightarrow> string \<Rightarrow> error + HTTPRequest"
  httpClient_Do :: "HTTPRequest \<Rightarrow> error + HTTPResponse"
  json_Unmarshal :: "string \<Rightarrow> error + BankResponse"

record HTTPBankClient =
  baseURL :: string

definition io_ReadAll :: "HTTPResponse \<Rightarrow> error + string" where
  "io_ReadAll resp = Body resp"

definition HTTPBankClient_ProcessPayment ::
  "HTTPEnv \<Rightarrow> HTTPBankClient \<Rightarrow> Payment \<Rightarrow> error + BankResponse" where
  "HTTPBankClient_ProcessPayment env c payment =
     (let bankReq = convertTobankRequest payment in
      case json_Marshal env bankReq of
        Inl err \<Rightarrow> Inl (fmt_Errorf_w ''failed to marshal bank request: '' err)
      | Inr jsonData \<Rightarrow>
     (case http_NewRequest env ''POST'' (baseURL c @ ''/payments'') jsonData of
        Inl err \<Rightarrow> Inl (fmt_Errorf_w ''failed to create HTTP request: '' err)
      | Inr req0 \<Rightarrow>
     (let req = req0\<lparr>Header := (Header req0)(''Content-Type'' \<mapsto> ''application/json'')\<rparr> in
      case httpClient_Do env req of
        Inl err \<Rightarrow> Inl (fmt_Errorf_w ''failed to send request to bank: '' err)
      | Inr resp \<Rightarrow>
     (case io_ReadAll resp of
        Inl err \<Rightarrow> Inl (fmt_Errorf_w ''failed to read response body: '' err)
      | Inr body \<Rightarrow>
          (if StatusCode resp = 200 then
             (case json_Unmarshal env body of
                Inl err \<Rightarrow> Inl (fmt_Errorf_w ''failed to unmarshal bank response: '' err)
              | Inr bankResp \<Rightarrow> Inr bankResp)
           else if StatusCode resp = 400 then
             Inl (errors_New (''bank rejected request: '' @ body))
           else if StatusCode resp = 503 then
             Inl (errors_New ''bank service unavailable'')
           else
             Inl (errors_New (''unexpected response from bank: '' @ fmt_d (StatusCode resp)
                                @ '' - '' @ body)))))))"

section \<open>Package repository: the in-memory store\<close>

text \<open>
  \<open>PaymentsRepository\<close> is a Go map from the payment's id to the payment, behind a
  read-write mutex: each method runs as one step on the map. \<open>Save\<close> never fails;
  \<open>FindByID\<close> answers \<open>(nil, nil)\<close> for an id the map does not hold. The Go map holds
  pointers; the map here holds the payment as it is when it is saved. The two agree as
  long as a payment is not written to after it has been saved, and the gateway's last
  write to a payment comes before its \<open>Save\<close>.
\<close>

record PaymentsRepository =
  payments :: "string \<rightharpoonup> Payment"

definition NewPaymentsRepository :: PaymentsRepository where
  "NewPaymentsRepository = \<lparr>payments = Map.empty\<rparr>"

definition PaymentsRepository_Save ::
  "PaymentsRepository \<Rightarrow> Payment \<Rightarrow> error option \<times> PaymentsRepository" where
  "PaymentsRepository_Save r payment =
     (None, r\<lparr>payments := (payments r)(ID payment \<mapsto> payment)\<rparr>)"

definition PaymentsRepository_FindByID ::
  "PaymentsRepository \<Rightarrow> string \<Rightarrow> (Payment option \<times> error option) \<times> PaymentsRepository" where
  "PaymentsRepository_FindByID r ident =
     (case payments r ident of
        None \<Rightarrow> ((None, None), r)
      | Some payment \<Rightarrow> ((Some payment, None), r))"

section \<open>Package service: the orchestrator\<close>

text \<open>
  The two interfaces the service is built from. A \<open>BankClient\<close> answers with a response
  or with an error, never with both and never with neither, as \<open>HTTPBankClient\<close> does. A
  \<open>PaymentRepository\<close> has a state of its own, of type \<open>'r\<close>, that each method takes and
  returns.
\<close>

type_synonym BankClient = "Payment \<Rightarrow> error + BankResponse"

record 'r PaymentRepository =
  Save :: "'r \<Rightarrow> Payment \<Rightarrow> error option \<times> 'r"
  FindByID :: "'r \<Rightarrow> string \<Rightarrow> (Payment option \<times> error option) \<times> 'r"

record 'r PaymentService =
  bankClient :: BankClient
  repository :: "'r PaymentRepository"

definition NewPaymentService :: "BankClient \<Rightarrow> 'r PaymentRepository \<Rightarrow> 'r PaymentService" where
  "NewPaymentService bc repo = \<lparr>bankClient = bc, repository = repo\<rparr>"

text \<open>
  \<open>uuid.New().String()\<close>. \<open>New\<close> reads sixteen bytes from the random source into the
  UUID, then overwrites the upper four bits of byte 6 with the version, 4, and the upper
  two bits of byte 8 with the variant, binary 10; it panics when the source fails. The
  sixteen bytes read are the argument of \<open>uuid_New\<close>. \<open>String\<close> writes the UUID in lower-case
  hexadecimal, in groups of 4, 2, 2, 2 and 6 bytes with a dash between two groups.
\<close>

type_synonym UUID = "8 word list"

definition hextable :: string where
  "hextable = ''0123456789abcdef''"

primrec hex_Encode :: "8 word list \<Rightarrow> string" where
  "hex_Encode [] = []"
| "hex_Encode (v # src) =
     hextable ! unat (drop_bit 4 v) # hextable ! unat (v AND 0x0f) # hex_Encode src"

definition UUID_String :: "UUID \<Rightarrow> string" where
  "UUID_String uuid =
     hex_Encode (take 4 uuid) @ ''-'' @
     hex_Encode (take 2 (drop 4 uuid)) @ ''-'' @
     hex_Encode (take 2 (drop 6 uuid)) @ ''-'' @
     hex_Encode (take 2 (drop 8 uuid)) @ ''-'' @
     hex_Encode (drop 10 uuid)"

definition uuid_New :: "8 word list \<Rightarrow> UUID" where
  "uuid_New rnd =
     (let uuid = rnd;
          uuid = uuid[6 := (uuid ! 6 AND 0x0f) OR 0x40];
          uuid = uuid[8 := (uuid ! 8 AND 0x3f) OR 0x80]
      in uuid)"

text \<open>
  \<open>ProcessPayment\<close> writes to the payment it is given and answers with a pointer to that
  same payment or with an error. The model returns the answer, the payment as the call
  leaves it, and the state of the repository. Its argument \<open>uuid\<close> is the value that
  \<open>uuid.New()\<close> returns in this call, \<open>uuid_New\<close> of the bytes drawn.
\<close>

definition ProcessPayment ::
  "'r PaymentService \<Rightarrow> UUID \<Rightarrow> 'r \<Rightarrow> Payment \<Rightarrow> (error + Payment) \<times> Payment \<times> 'r" where
  "ProcessPayment s uuid r payment0 =
     (let payment = payment0\<lparr>ID := UUID_String uuid\<rparr> in
      case bankClient s payment of
        Inl err \<Rightarrow>
          (Inl (fmt_Errorf_w ''failed to process payment with bank: '' err), payment, r)
      | Inr bankResp \<Rightarrow>
          (let payment1 = (if Authorized bankResp then SetAuthorized payment
                           else SetDeclined payment)
           in case Save (repository s) r payment1 of
                (Some err, r1) \<Rightarrow>
                  (Inl (fmt_Errorf_w ''failed to save payment: '' err), payment1, r1)
              | (None, r1) \<Rightarrow> (Inr payment1, payment1, r1)))"

definition GetPayment :: "'r PaymentService \<Rightarrow> 'r \<Rightarrow> string \<Rightarrow> (error + Payment) \<times> 'r" where
  "GetPayment s r ident =
     (case FindByID (repository s) r ident of
        ((_, Some err), r1) \<Rightarrow> (Inl err, r1)
      | ((None, None), r1) \<Rightarrow> (Inl ErrPaymentNotFound, r1)
      | ((Some payment, None), r1) \<Rightarrow> (Inr payment, r1))"

text \<open>The store the gateway is wired with (\<open>api.NewWithBankURL\<close>), as a \<open>PaymentRepository\<close>.\<close>

definition inMemoryRepository :: "PaymentsRepository PaymentRepository" where
  "inMemoryRepository =
     \<lparr>Save = PaymentsRepository_Save, FindByID = PaymentsRepository_FindByID\<rparr>"

text \<open>
  The test double of the service's tests: \<open>Save\<close> records the payment it was called with
  and answers with the error it was set up to return.
\<close>

record MockPaymentRepository =
  SaveCalls :: "Payment list"
  SaveReturn :: "error option"
  FindReturn :: "Payment option \<times> error option"

definition mockRepository :: "MockPaymentRepository PaymentRepository" where
  "mockRepository =
     \<lparr>Save = (\<lambda>m payment. (SaveReturn m, m\<lparr>SaveCalls := SaveCalls m @ [payment]\<rparr>)),
      FindByID = (\<lambda>m ident. (FindReturn m, m))\<rparr>"

section \<open>Package models: the responses\<close>

record PostPaymentResponse =
  post_ID :: string
  post_Status :: string
  post_CardNumberLastFour :: string
  post_ExpiryMonth :: int
  post_ExpiryYear :: int
  post_Currency :: string
  post_Amount :: int

record GetPaymentResponse =
  get_ID :: string
  get_Status :: string
  get_CardNumberLastFour :: string
  get_ExpiryMonth :: int
  get_ExpiryYear :: int
  get_Currency :: string
  get_Amount :: int

definition FromDomainPayment :: "Payment \<Rightarrow> PostPaymentResponse" where
  "FromDomainPayment payment =
     (let lastFour = GetLastFourDigits (Card payment) in
      \<lparr>post_ID = ID payment, post_Status = Status payment,
       post_CardNumberLastFour = lastFour,
       post_ExpiryMonth = ExpiryMonth (Card payment),
       post_ExpiryYear = ExpiryYear (Card payment),
       post_Currency = Currency payment, post_Amount = Amount payment\<rparr>)"

definition ToGetPaymentResponse :: "Payment \<Rightarrow> GetPaymentResponse" where
  "ToGetPaymentResponse payment =
     (let lastFour = GetLastFourDigits (Card payment) in
      \<lparr>get_ID = ID payment, get_Status = Status payment,
       get_CardNumberLastFour = lastFour,
       get_ExpiryMonth = ExpiryMonth (Card payment),
       get_ExpiryYear = ExpiryYear (Card payment),
       get_Currency = Currency payment, get_Amount = Amount payment\<rparr>)"

section \<open>Example values\<close>

text \<open>A card and a clock on which the card is valid, used to run the gateway on
  concrete input.\<close>

definition card0 :: Card where
  "card0 = \<lparr>Number = ''2222405343248877'', ExpiryMonth = 12, ExpiryYear = 2030, CVV = ''123''\<rparr>"

definition now0 :: Time where
  "now0 = \<lparr>Year = 2026, Month = 11, Day = 1\<rparr>"

definition payment0 :: Payment where
  "payment0 = \<lparr>ID = [], Card = card0, Currency = ''GBP'', Amount = 100, Status = StatusRejected\<rparr>"

text \<open>Two UUIDs that differ in their last byte.\<close>

definition uuid0 :: UUID where
  "uuid0 = [0x55, 0x0e, 0x84, 0x00, 0xe2, 0x9b, 0x41, 0xd4,
            0xa7, 0x16, 0x44, 0x66, 0x55, 0x44, 0x00, 0x00]"

definition uuid1 :: UUID where
  "uuid1 = [0x55, 0x0e, 0x84, 0x00, 0xe2, 0x9b, 0x41, 0xd4,
            0xa7, 0x16, 0x44, 0x66, 0x55, 0x44, 0x00, 0x01]"

text \<open>
  Three draws of the random source. The first two differ only in bits that \<open>uuid.New\<close>
  overwrites; the third differs from the first in its last byte.
\<close>

definition draw0 :: "8 word list" where
  "draw0 = [0x55, 0x0e, 0x84, 0x00, 0xe2, 0x9b, 0xf1, 0xd4,
            0x27, 0x16, 0x44, 0x66, 0x55, 0x44, 0x00, 0x00]"

definition draw1 :: "8 word list" where
  "draw1 = [0x55, 0x0e, 0x84, 0x00, 0xe2, 0x9b, 0x01, 0xd4,
            0x67, 0x16, 0x44, 0x66, 0x55, 0x44, 0x00, 0x00]"

definition draw2 :: "8 word list" where
  "draw2 = [0x55, 0x0e, 0x84, 0x00, 0xe2, 0x9b, 0xf1, 0xd4,
            0x27, 0x16, 0x44, 0x66, 0x55, 0x44, 0x00, 0x01]"

text \<open>A bank client that always answers, authorising or declining.\<close>

definition bankAnswers :: "bool \<Rightarrow> BankClient" where
  "bankAnswers a =
     (\<lambda>payment. Inr \<lparr>Authorized = a,
                       AuthorizationCode = (if a then ''auth-code-123'' else [])\<rparr>)"

text \<open>
  An environment in which the bank answers every request with the given status code and
  body, and in which only the body \<open>{}\<close> decodes.
\<close>

definition exampleEnv :: "int \<Rightarrow> string \<Rightarrow> HTTPEnv" where
  "exampleEnv status body =
     \<lparr>json_Marshal = (\<lambda>bankReq. Inr ''{}''),
      http_NewRequest =
        (\<lambda>m u b. Inr \<lparr>Method = m, URL = u, Header = Map.empty, RequestBody = b\<rparr>),
      httpClient_Do = (\<lambda>req. Inr \<lparr>StatusCode = status, Body = Inr body\<rparr>),
      json_Unmarshal =
        (\<lambda>b. if b = ''{}'' then Inr \<lparr>Authorized = False, AuthorizationCode = []\<rparr>
             else Inl (errors_New ''unexpected end of JSON input''))\<rparr>"

section \<open>The validation engine\<close>

subsection \<open>Numeric strings\<close>

lemma isDigit_value: "isDigit c \<Longrightarrow> of_char c - of_char CHR ''0'' \<le> (9::nat)"
  by (auto simp: isDigit_def less_eq_char_def)

text \<open>
  A string of at most 19 decimal digits stays below \<open>10^19 < 2^64\<close>, so the parser never
  reports a range error on it. The accumulator is generalised: after \<open>k\<close> digits it is
  below \<open>10^k\<close>.
\<close>

lemma ParseUint_loop_digits:
  "\<forall>c\<in>set cs. isDigit c \<Longrightarrow> n < 10 ^ k \<Longrightarrow> k + length cs \<le> 19 \<Longrightarrow>
   \<exists>m. ParseUint_loop n cs = Inr m"
proof (induction cs arbitrary: n k)
  case Nil
  then show ?case by simp
next
  case (Cons c cs)
  define d :: nat where "d = of_char c - of_char CHR ''0''"
  have dig: "isDigit c" using Cons.prems(1) by simp
  have d9: "d \<le> 9" unfolding d_def using dig by (rule isDigit_value)
  have k18: "k \<le> 18" using Cons.prems(3) by simp
  have "(10::nat) ^ k \<le> 10 ^ 18" using k18 by (intro power_increasing) simp_all
  then have n18: "n < 10 ^ 18" using Cons.prems(2) by linarith
  have nc: "\<not> n \<ge> cutoff" using n18 by (simp add: cutoff_def maxUint64_def)
  have step: "n * 10 + d < 10 ^ Suc k" using Cons.prems(2) d9 by simp
  have "(10::nat) ^ Suc k \<le> 10 ^ 19" using k18 by (intro power_increasing) simp_all
  then have lt19: "n * 10 + d < 10 ^ 19" using step by linarith
  then have small: "n * 10 + d < 2 ^ 64" by simp
  then have md: "(n * 10 + d) mod 2 ^ 64 = n * 10 + d" by simp
  have ok: "\<not> (n * 10 + d < n * 10 \<or> n * 10 + d > maxUint64)"
    using small by (simp add: maxUint64_def)
  have "\<exists>m. ParseUint_loop (n * 10 + d) cs = Inr m"
    using Cons.IH[of "n * 10 + d" "Suc k"] Cons.prems step by simp
  then show ?case using dig nc md ok by (simp add: d_def Let_def)
qed

lemma ParseUint_loop_nondigit:
  "\<exists>c\<in>set cs. \<not> isDigit c \<Longrightarrow> \<exists>e. ParseUint_loop n cs = Inl e"
  by (induction cs arbitrary: n) (auto simp: Let_def)

lemma isNumeric_digits:
  "s \<noteq> [] \<Longrightarrow> length s \<le> 19 \<Longrightarrow> \<forall>c\<in>set s. isDigit c \<Longrightarrow> isNumeric s"
  using ParseUint_loop_digits[of s 0 0] by (auto simp: isNumeric_def ParseUint_def)

lemma isNumeric_nondigit:
  "\<exists>c\<in>set s. \<not> isDigit c \<Longrightarrow> \<not> isNumeric s"
  using ParseUint_loop_nondigit[of s 0] by (auto simp: isNumeric_def ParseUint_def)

lemma validateCVV_digits:
  "3 \<le> length (CVV c) \<Longrightarrow> length (CVV c) \<le> 4 \<Longrightarrow> \<forall>ch\<in>set (CVV c). isDigit ch \<Longrightarrow>
   validateCVV c = None"
  using isNumeric_digits[of "CVV c"] by (auto simp: validateCVV_def)

lemma validateCardNumber_digits:
  "14 \<le> length (Number c) \<Longrightarrow> length (Number c) \<le> 19 \<Longrightarrow>
   \<forall>ch\<in>set (Number c). isDigit ch \<Longrightarrow> validateCardNumber c = None"
  using isNumeric_digits[of "Number c"] by (auto simp: validateCardNumber_def)

lemma Card_Validate_card0: "Card_Validate now0 card0 = None"
proof -
  have "validateCardNumber card0 = None"
    by (rule validateCardNumber_digits) (simp_all add: card0_def isDigit_def)
  moreover have "validateCVV card0 = None"
    by (rule validateCVV_digits) (simp_all add: card0_def isDigit_def)
  moreover have "validateExpiry now0 card0 = None"
    by (simp add: validateExpiry_def card0_def now0_def)
  ultimately show ?thesis by (simp add: Card_Validate_def)
qed

subsection \<open>Card number\<close>

text \<open>
  Claim C8. The card number's rules are checked in order and the first failure wins: an
  empty number is \<open>ErrCardNumberRequired\<close>; a non-empty number whose length is outside
  14..19 is \<open>ErrCardNumberInvalid\<close>, whatever its characters and the other fields; a
  number of 14 to 19 bytes with a byte that is not a decimal digit is
  \<open>ErrCardNumberNotNumeric\<close>; a string of 14 to 19 decimal digits passes. An error of the
  card number is the error of the whole card validation.
\<close>

theorem validateCardNumber_rules:
  "(Number c = [] \<longrightarrow> validateCardNumber c = Some ErrCardNumberRequired) \<and>
   (Number c \<noteq> [] \<and> (length (Number c) < 14 \<or> 19 < length (Number c)) \<longrightarrow>
      validateCardNumber c = Some ErrCardNumberInvalid) \<and>
   (14 \<le> length (Number c) \<and> length (Number c) \<le> 19 \<and> (\<exists>ch\<in>set (Number c). \<not> isDigit ch) \<longrightarrow>
      validateCardNumber c = Some ErrCardNumberNotNumeric) \<and>
   (14 \<le> length (Number c) \<and> length (Number c) \<le> 19 \<and> (\<forall>ch\<in>set (Number c). isDigit ch) \<longrightarrow>
      validateCardNumber c = None) \<and>
   (\<forall>err. validateCardNumber c = Some err \<longrightarrow> Card_Validate now c = Some err)"
proof (intro conjI impI allI)
  assume "Number c = []"
  then show "validateCardNumber c = Some ErrCardNumberRequired"
    by (simp add: validateCardNumber_def)
next
  assume "Number c \<noteq> [] \<and> (length (Number c) < 14 \<or> 19 < length (Number c))"
  then show "validateCardNumber c = Some ErrCardNumberInvalid"
    by (auto simp: validateCardNumber_def)
next
  assume a: "14 \<le> length (Number c) \<and> length (Number c) \<le> 19 \<and>
             (\<exists>ch\<in>set (Number c). \<not> isDigit ch)"
  then have "\<not> isNumeric (Number c)" by (intro isNumeric_nondigit) simp
  with a show "validateCardNumber c = Some ErrCardNumberNotNumeric"
    by (auto simp: validateCardNumber_def)
next
  assume a: "14 \<le> length (Number c) \<and> length (Number c) \<le> 19 \<and>
             (\<forall>ch\<in>set (Number c). isDigit ch)"
  then show "validateCardNumber c = None"
    by (intro validateCardNumber_digits) simp_all
next
  fix err assume "validateCardNumber c = Some err"
  then show "Card_Validate now c = Some err" by (simp add: Card_Validate_def)
qed

theorem validateCardNumber_rules_witness:
  "validateCardNumber \<lparr>Number = '''', ExpiryMonth = 12, ExpiryYear = 2030, CVV = ''123''\<rparr>
     = Some ErrCardNumberRequired \<and>
   validateCardNumber \<lparr>Number = ''1234567890123'', ExpiryMonth = 12, ExpiryYear = 2030, CVV = ''123''\<rparr>
     = Some ErrCardNumberInvalid \<and>
   validateCardNumber \<lparr>Number = ''123456789012345A'', ExpiryMonth = 12, ExpiryYear = 2030, CVV = ''123''\<rparr>
     = Some ErrCardNumberNotNumeric \<and>
   validateCardNumber \<lparr>Number = ''1234567890123456789'', ExpiryMonth = 12, ExpiryYear = 2030, CVV = ''123''\<rparr>
     = None \<and>
   Card_Validate \<lparr>Year = 2026, Month = 11, Day = 1\<rparr>
     \<lparr>Number = ''ABC'', ExpiryMonth = 0, ExpiryYear = 0, CVV = ''''\<rparr> = Some ErrCardNumberInvalid"
  using validateCardNumber_rules
          [of "\<lparr>Number = '''', ExpiryMonth = 12, ExpiryYear = 2030, CVV = ''123''\<rparr>"]
        validateCardNumber_rules
          [of "\<lparr>Number = ''1234567890123'', ExpiryMonth = 12, ExpiryYear = 2030, CVV = ''123''\<rparr>"]
        validateCardNumber_rules
          [of "\<lparr>Number = ''123456789012345A'', ExpiryMonth = 12, ExpiryYear = 2030, CVV = ''123''\<rparr>"]
        validateCardNumber_rules
          [of "\<lparr>Number = ''1234567890123456789'', ExpiryMonth = 12, ExpiryYear = 2030, CVV = ''123''\<rparr>"]
        validateCardNumber_rules
          [of "\<lparr>Number = ''ABC'', ExpiryMonth = 0, ExpiryYear = 0, CVV = ''''\<rparr>"
              "\<lparr>Year = 2026, Month = 11, Day = 1\<rparr>"]
  by (simp add: isDigit_def)

subsection \<open>Last four digits\<close>

text \<open>
  Claim C10. \<open>GetLastFourDigits\<close> returns the whole number when it has fewer than four
  bytes, and otherwise exactly its final four bytes: whenever the number is some prefix
  followed by four bytes, those four bytes are the result.
\<close>

theorem GetLastFourDigits_spec:
  "(length (Number c) < 4 \<longrightarrow> GetLastFourDigits c = Number c) \<and>
   (\<forall>pre suf. Number c = pre @ suf \<and> length suf = 4 \<longrightarrow> GetLastFourDigits c = suf) \<and>
   (4 \<le> length (Number c) \<longrightarrow> length (GetLastFourDigits c) = 4)"
  by (auto simp: GetLastFourDigits_def)

theorem GetLastFourDigits_spec_witness:
  "GetLastFourDigits \<lparr>Number = ''123'', ExpiryMonth = 0, ExpiryYear = 0, CVV = ''''\<rparr> = ''123'' \<and>
   GetLastFourDigits \<lparr>Number = ''1234567890123456'', ExpiryMonth = 0, ExpiryYear = 0, CVV = ''''\<rparr>
     = ''3456''"
  using GetLastFourDigits_spec
          [of "\<lparr>Number = ''123'', ExpiryMonth = 0, ExpiryYear = 0, CVV = ''''\<rparr>"]
        GetLastFourDigits_spec
          [of "\<lparr>Number = ''1234567890123456'', ExpiryMonth = 0, ExpiryYear = 0, CVV = ''''\<rparr>",
           THEN conjunct2, THEN conjunct1, rule_format, of "''123456789012''" "''3456''"]
  by simp

subsection \<open>Expiry\<close>

text \<open>
  Claim C6. For a card with a month in 1..12 and a year other than zero, the expiry check
  compares the pair (year, month) of the card with the pair of the clock in the
  lexicographic order: a year below the current year, or the current year with a month
  below the current month, is \<open>ErrExpiryDateInPast\<close>; the current year with the current
  or a later month passes, and so does any later year, whatever the month. The day of
  the month of the clock has no influence on the result.
\<close>

theorem validateExpiry_lexicographic:
  "1 \<le> ExpiryMonth c \<and> ExpiryMonth c \<le> 12 \<and> ExpiryYear c \<noteq> 0 \<longrightarrow>
     validateExpiry now c =
       (if (ExpiryYear c, ExpiryMonth c) < (Year now, Month now)
        then Some ErrExpiryDateInPast else None) \<and>
     (ExpiryYear c < Year now \<or> (ExpiryYear c = Year now \<and> ExpiryMonth c < Month now) \<longrightarrow>
        validateExpiry now c = Some ErrExpiryDateInPast) \<and>
     (ExpiryYear c = Year now \<and> Month now \<le> ExpiryMonth c \<longrightarrow> validateExpiry now c = None) \<and>
     (Year now < ExpiryYear c \<longrightarrow> validateExpiry now c = None) \<and>
     (\<forall>d. validateExpiry (now\<lparr>Day := d\<rparr>) c = validateExpiry now c)"
  by (auto simp: validateExpiry_def Let_def less_prod_def)

theorem validateExpiry_lexicographic_witness:
  "validateExpiry \<lparr>Year = 2026, Month = 11, Day = 1\<rparr>
     \<lparr>Number = ''1234567890123456'', ExpiryMonth = 10, ExpiryYear = 2026, CVV = ''123''\<rparr>
     = Some ErrExpiryDateInPast \<and>
   validateExpiry \<lparr>Year = 2026, Month = 11, Day = 30\<rparr>
     \<lparr>Number = ''1234567890123456'', ExpiryMonth = 11, ExpiryYear = 2026, CVV = ''123''\<rparr>
     = None \<and>
   validateExpiry \<lparr>Year = 2026, Month = 11, Day = 1\<rparr>
     \<lparr>Number = ''1234567890123456'', ExpiryMonth = 1, ExpiryYear = 2027, CVV = ''123''\<rparr>
     = None \<and>
   validateExpiry \<lparr>Year = 2026, Month = 11, Day = 1\<rparr>
     \<lparr>Number = ''1234567890123456'', ExpiryMonth = 12, ExpiryYear = 2025, CVV = ''123''\<rparr>
     = Some ErrExpiryDateInPast"
  using validateExpiry_lexicographic
          [of "\<lparr>Number = ''1234567890123456'', ExpiryMonth = 10, ExpiryYear = 2026, CVV = ''123''\<rparr>"
              "\<lparr>Year = 2026, Month = 11, Day = 1\<rparr>"]
        validateExpiry_lexicographic
          [of "\<lparr>Number = ''1234567890123456'', ExpiryMonth = 11, ExpiryYear = 2026, CVV = ''123''\<rparr>"
              "\<lparr>Year = 2026, Month = 11, Day = 30\<rparr>"]
        validateExpiry_lexicographic
          [of "\<lparr>Number = ''1234567890123456'', ExpiryMonth = 1, ExpiryYear = 2027, CVV = ''123''\<rparr>"
              "\<lparr>Year = 2026, Month = 11, Day = 1\<rparr>"]
        validateExpiry_lexicographic
          [of "\<lparr>Number = ''1234567890123456'', ExpiryMonth = 12, ExpiryYear = 2025, CVV = ''123''\<rparr>"
              "\<lparr>Year = 2026, Month = 11, Day = 1\<rparr>"]
  by simp

subsection \<open>Currency\<close>

lemma ToUpper_usd: "ToUpper mapUpper ''usd'' = ''USD''"
  by (simp add: ToUpper_def isASCII_def hasLower_def upperByte_def char_of_def bit_Suc_0_iff)

lemma supportedCurrencies_index_iff:
  "supportedCurrencies_index k \<longleftrightarrow> k \<in> {''USD'', ''GBP'', ''EUR''}"
  by (auto simp: supportedCurrencies_index_def supportedCurrencies_def
           split: option.splits if_splits)

lemma validateAmount_Currency_update: "validateAmount (p\<lparr>Currency := x\<rparr>) = validateAmount p"
  by (simp add: validateAmount_def)

lemma Validate_after_card:
  "Card_Validate now (Card p) = None \<Longrightarrow>
   Validate now mapUpper p =
     (case validateCurrency mapUpper p of
        (Some err, p1) \<Rightarrow> (Some err, p1)
      | (None, p1) \<Rightarrow> (validateAmount p1, p1))"
  by (auto simp: Validate_def split: prod.splits option.splits)

text \<open>
  Claim C7. Once the card has passed, an empty currency is \<open>ErrCurrencyRequired\<close>; a
  currency whose upper-cased form is not three bytes long or is not one of USD, GBP and
  EUR is \<open>ErrCurrencyInvalid\<close>; otherwise the check succeeds and the payment's currency
  is replaced by its upper-cased form. The input \<open>usd\<close> succeeds and is stored as
  \<open>USD\<close>. This holds of \<open>validateCurrency\<close> itself and of \<open>Validate\<close> on a payment whose
  card is valid, where the amount is checked after the currency.
\<close>

theorem validateCurrency_rules:
  "(Currency p = [] \<longrightarrow> validateCurrency mapUpper p = (Some ErrCurrencyRequired, p)) \<and>
   (Currency p \<noteq> [] \<and>
      (length (ToUpper mapUpper (Currency p)) \<noteq> 3 \<or>
       ToUpper mapUpper (Currency p) \<notin> {''USD'', ''GBP'', ''EUR''}) \<longrightarrow>
      validateCurrency mapUpper p = (Some ErrCurrencyInvalid, p)) \<and>
   (Currency p \<noteq> [] \<and> ToUpper mapUpper (Currency p) \<in> {''USD'', ''GBP'', ''EUR''} \<longrightarrow>
      validateCurrency mapUpper p = (None, p\<lparr>Currency := ToUpper mapUpper (Currency p)\<rparr>)) \<and>
   validateCurrency mapUpper (p\<lparr>Currency := ''usd''\<rparr>) = (None, p\<lparr>Currency := ''USD''\<rparr>) \<and>
   (Card_Validate now (Card p) = None \<longrightarrow>
      (Currency p = [] \<longrightarrow> Validate now mapUpper p = (Some ErrCurrencyRequired, p)) \<and>
      (Currency p \<noteq> [] \<and>
         (length (ToUpper mapUpper (Currency p)) \<noteq> 3 \<or>
          ToUpper mapUpper (Currency p) \<notin> {''USD'', ''GBP'', ''EUR''}) \<longrightarrow>
         Validate now mapUpper p = (Some ErrCurrencyInvalid, p)) \<and>
      (Currency p \<noteq> [] \<and> ToUpper mapUpper (Currency p) \<in> {''USD'', ''GBP'', ''EUR''} \<longrightarrow>
         Validate now mapUpper p =
           (validateAmount p, p\<lparr>Currency := ToUpper mapUpper (Currency p)\<rparr>)))"
proof -
  have req: "Currency p = [] \<longrightarrow> validateCurrency mapUpper p = (Some ErrCurrencyRequired, p)"
    by (simp add: validateCurrency_def)
  have inv: "Currency p \<noteq> [] \<and>
      (length (ToUpper mapUpper (Currency p)) \<noteq> 3 \<or>
       ToUpper mapUpper (Currency p) \<notin> {''USD'', ''GBP'', ''EUR''}) \<longrightarrow>
      validateCurrency mapUpper p = (Some ErrCurrencyInvalid, p)"
    by (simp add: validateCurrency_def Let_def supportedCurrencies_index_iff)
  have ok: "Currency p \<noteq> [] \<and> ToUpper mapUpper (Currency p) \<in> {''USD'', ''GBP'', ''EUR''} \<longrightarrow>
      validateCurrency mapUpper p = (None, p\<lparr>Currency := ToUpper mapUpper (Currency p)\<rparr>)"
    by (auto simp: validateCurrency_def Let_def supportedCurrencies_index_iff)
  have usd: "validateCurrency mapUpper (p\<lparr>Currency := ''usd''\<rparr>) = (None, p\<lparr>Currency := ''USD''\<rparr>)"
    by (simp add: validateCurrency_def Let_def supportedCurrencies_index_iff ToUpper_usd)
  show ?thesis
    using req inv ok usd by (auto simp: Validate_after_card validateAmount_Currency_update)
qed

theorem validateCurrency_rules_witness:
  "validateCurrency id \<lparr>ID = [], Card = card0, Currency = '''', Amount = 100, Status = StatusRejected\<rparr>
     = (Some ErrCurrencyRequired,
        \<lparr>ID = [], Card = card0, Currency = '''', Amount = 100, Status = StatusRejected\<rparr>) \<and>
   validateCurrency id \<lparr>ID = [], Card = card0, Currency = ''JPY'', Amount = 100, Status = StatusRejected\<rparr>
     = (Some ErrCurrencyInvalid,
        \<lparr>ID = [], Card = card0, Currency = ''JPY'', Amount = 100, Status = StatusRejected\<rparr>) \<and>
   Validate now0 id \<lparr>ID = [], Card = card0, Currency = ''GBP'', Amount = 100, Status = StatusRejected\<rparr>
     = (None, \<lparr>ID = [], Card = card0, Currency = ''GBP'', Amount = 100, Status = StatusRejected\<rparr>) \<and>
   Validate now0 id \<lparr>ID = [], Card = card0, Currency = ''eur'', Amount = 100, Status = StatusRejected\<rparr>
     = (None, \<lparr>ID = [], Card = card0, Currency = ''EUR'', Amount = 100, Status = StatusRejected\<rparr>)"
proof -
  have up: "ToUpper id ''JPY'' = ''JPY''" "ToUpper id ''GBP'' = ''GBP''" "ToUpper id ''eur'' = ''EUR''"
    by (simp_all add: ToUpper_def isASCII_def hasLower_def upperByte_def char_of_def bit_Suc_0_iff)
  show ?thesis
    using validateCurrency_rules
            [of "\<lparr>ID = [], Card = card0, Currency = '''', Amount = 100, Status = StatusRejected\<rparr>" id now0]
          validateCurrency_rules
            [of "\<lparr>ID = [], Card = card0, Currency = ''JPY'', Amount = 100, Status = StatusRejected\<rparr>" id now0]
          validateCurrency_rules
            [of "\<lparr>ID = [], Card = card0, Currency = ''GBP'', Amount = 100, Status = StatusRejected\<rparr>" id now0]
          validateCurrency_rules
            [of "\<lparr>ID = [], Card = card0, Currency = ''eur'', Amount = 100, Status = StatusRejected\<rparr>" id now0]
          Card_Validate_card0
    by (simp add: up validateAmount_def)
qed

subsection \<open>Validation as a whole\<close>

lemma Card_Validate_errors:
  "Card_Validate now c = Some err \<Longrightarrow>
   err \<in> {ErrCardNumberRequired, ErrCardNumberInvalid, ErrCardNumberNotNumeric,
          ErrExpiryMonthRequired, ErrExpiryMonthInvalid, ErrExpiryYearRequired,
          ErrExpiryDateInPast, ErrCVVRequired, ErrCVVInvalid, ErrCVVNotNumeric}"
  by (auto simp: Card_Validate_def validateCardNumber_def validateExpiry_def validateCVV_def
                 Let_def split: option.splits if_splits)

lemma card_error_not_amount:
  "Card_Validate now c = Some err \<Longrightarrow> err \<noteq> ErrAmountInvalid"
  by (drule Card_Validate_errors)
     (auto simp: ErrCardNumberRequired_def ErrCardNumberInvalid_def ErrCardNumberNotNumeric_def
        ErrExpiryMonthRequired_def ErrExpiryMonthInvalid_def ErrExpiryYearRequired_def
        ErrExpiryDateInPast_def ErrCVVRequired_def ErrCVVInvalid_def ErrCVVNotNumeric_def
        ErrAmountInvalid_def)

lemma currency_error_not_amount:
  "validateCurrency mapUpper p = (Some err, p1) \<Longrightarrow> err \<noteq> ErrAmountInvalid \<and> p1 = p"
  by (auto simp: validateCurrency_def Let_def ErrCurrencyRequired_def ErrCurrencyInvalid_def
                 ErrAmountInvalid_def split: if_splits)

lemma currency_ok:
  "validateCurrency mapUpper p = (None, p1) \<Longrightarrow> p1 = p\<lparr>Currency := ToUpper mapUpper (Currency p)\<rparr>"
  by (auto simp: validateCurrency_def Let_def split: if_splits)

lemma validateAmount_error: "validateAmount p = Some err \<Longrightarrow> err = ErrAmountInvalid"
  by (auto simp: validateAmount_def split: if_splits)

lemma Validate_cases:
  "Validate now mapUpper p = (res, p') \<Longrightarrow>
     (\<exists>err. Card_Validate now (Card p) = Some err \<and> res = Some err \<and> p' = p) \<or>
     (\<exists>err. Card_Validate now (Card p) = None \<and> validateCurrency mapUpper p = (Some err, p) \<and>
            res = Some err \<and> p' = p) \<or>
     (Card_Validate now (Card p) = None \<and>
      validateCurrency mapUpper p = (None, p\<lparr>Currency := ToUpper mapUpper (Currency p)\<rparr>) \<and>
      res = validateAmount p \<and> p' = p\<lparr>Currency := ToUpper mapUpper (Currency p)\<rparr>)"
proof (cases "Card_Validate now (Card p)")
  case (Some err)
  assume "Validate now mapUpper p = (res, p')"
  with Some show ?thesis by (auto simp: Validate_def)
next
  case None
  assume v: "Validate now mapUpper p = (res, p')"
  obtain r1 p1 where vc: "validateCurrency mapUpper p = (r1, p1)" by (cases "validateCurrency mapUpper p")
  show ?thesis
  proof (cases r1)
    case (Some err)
    with vc have "p1 = p" using currency_error_not_amount by blast
    with v None vc Some show ?thesis by (auto simp: Validate_def)
  next
    case N: None
    with vc have p1: "p1 = p\<lparr>Currency := ToUpper mapUpper (Currency p)\<rparr>" using currency_ok by blast
    have "validateAmount p1 = validateAmount p" by (simp add: p1 validateAmount_def)
    with v None vc N p1 show ?thesis by (auto simp: Validate_def split: option.splits)
  qed
qed

lemma Validate_result_fields:
  "Card q = Card p \<Longrightarrow> Currency q = Currency p \<Longrightarrow> Amount q = Amount p \<Longrightarrow>
   fst (Validate now mapUpper q) = fst (Validate now mapUpper p)"
  by (auto simp: Validate_def validateCurrency_def validateAmount_def Let_def
           split: option.splits prod.splits if_splits)

text \<open>
  Claim C4, as amended. \<open>Validate\<close> reports the error of the first rule that is violated
  (card, then currency, then amount) or passes all of them. It never touches the id, the
  card, the amount or the status. When it reports an error other than \<open>ErrAmountInvalid\<close>
  the payment is as it was; when it reports \<open>ErrAmountInvalid\<close> the currency has already
  been replaced by its upper-cased form, the amount being checked after the currency is
  normalised. \<open>NewPayment\<close> hands out no payment when \<open>Validate\<close> reports an error.
\<close>

theorem Validate_effects:
  "Validate now mapUpper p = (res, p') \<longrightarrow>
     ID p' = ID p \<and> Card p' = Card p \<and> Amount p' = Amount p \<and> Status p' = Status p \<and>
     (res = None \<longrightarrow>
        Card_Validate now (Card p) = None \<and> fst (validateCurrency mapUpper p) = None \<and>
        validateAmount p = None \<and> p' = p\<lparr>Currency := ToUpper mapUpper (Currency p)\<rparr>) \<and>
     (\<forall>err. res = Some err \<longrightarrow>
        (Card_Validate now (Card p) = Some err \<or>
         Card_Validate now (Card p) = None \<and> fst (validateCurrency mapUpper p) = Some err \<or>
         Card_Validate now (Card p) = None \<and> fst (validateCurrency mapUpper p) = None \<and>
           validateAmount p = Some err) \<and>
        (err \<noteq> ErrAmountInvalid \<longrightarrow> p' = p) \<and>
        (err = ErrAmountInvalid \<longrightarrow> p' = p\<lparr>Currency := ToUpper mapUpper (Currency p)\<rparr>) \<and>
        NewPayment now mapUpper (Card p) (Currency p) (Amount p) = Inl err)"
proof
  assume v: "Validate now mapUpper p = (res, p')"
  note c = Validate_cases[OF v]
  have fields: "ID p' = ID p \<and> Card p' = Card p \<and> Amount p' = Amount p \<and> Status p' = Status p"
    using c by auto
  have ok: "res = None \<longrightarrow>
        Card_Validate now (Card p) = None \<and> fst (validateCurrency mapUpper p) = None \<and>
        validateAmount p = None \<and> p' = p\<lparr>Currency := ToUpper mapUpper (Currency p)\<rparr>"
    using c by auto
  have err: "(Card_Validate now (Card p) = Some err \<or>
         Card_Validate now (Card p) = None \<and> fst (validateCurrency mapUpper p) = Some err \<or>
         Card_Validate now (Card p) = None \<and> fst (validateCurrency mapUpper p) = None \<and>
           validateAmount p = Some err) \<and>
        (err \<noteq> ErrAmountInvalid \<longrightarrow> p' = p) \<and>
        (err = ErrAmountInvalid \<longrightarrow> p' = p\<lparr>Currency := ToUpper mapUpper (Currency p)\<rparr>)"
    if r: "res = Some err" for err
    using c r
    by (auto dest: card_error_not_amount currency_error_not_amount validateAmount_error
                   validateAmount_error[OF sym])
  have new: "NewPayment now mapUpper (Card p) (Currency p) (Amount p) = Inl err"
    if r: "res = Some err" for err
  proof -
    let ?q = "\<lparr>ID = [], Card = Card p, Currency = Currency p, Amount = Amount p,
               Status = StatusRejected\<rparr>"
    have "fst (Validate now mapUpper ?q) = fst (Validate now mapUpper p)"
      by (rule Validate_result_fields) simp_all
    then have "fst (Validate now mapUpper ?q) = Some err" using v r by simp
    then show ?thesis by (auto simp: NewPayment_def Let_def split: prod.splits)
  qed
  show "ID p' = ID p \<and> Card p' = Card p \<and> Amount p' = Amount p \<and> Status p' = Status p \<and>
     (res = None \<longrightarrow>
        Card_Validate now (Card p) = None \<and> fst (validateCurrency mapUpper p) = None \<and>
        validateAmount p = None \<and> p' = p\<lparr>Currency := ToUpper mapUpper (Currency p)\<rparr>) \<and>
     (\<forall>err. res = Some err \<longrightarrow>
        (Card_Validate now (Card p) = Some err \<or>
         Card_Validate now (Card p) = None \<and> fst (validateCurrency mapUpper p) = Some err \<or>
         Card_Validate now (Card p) = None \<and> fst (validateCurrency mapUpper p) = None \<and>
           validateAmount p = Some err) \<and>
        (err \<noteq> ErrAmountInvalid \<longrightarrow> p' = p) \<and>
        (err = ErrAmountInvalid \<longrightarrow> p' = p\<lparr>Currency := ToUpper mapUpper (Currency p)\<rparr>) \<and>
        NewPayment now mapUpper (Card p) (Currency p) (Amount p) = Inl err)"
    using fields ok err new by blast
qed

text \<open>
  The claim as first stated, that a payment for which \<open>Validate\<close> returns an error has
  every field unchanged, fails on a valid card with currency \<open>usd\<close> and amount 0: the
  error is \<open>ErrAmountInvalid\<close> and the currency is left as \<open>USD\<close>.
\<close>

lemma Validate_usd_zero:
  "Validate now0 id \<lparr>ID = [], Card = card0, Currency = ''usd'', Amount = 0, Status = StatusRejected\<rparr>
     = (Some ErrAmountInvalid,
        \<lparr>ID = [], Card = card0, Currency = ''USD'', Amount = 0, Status = StatusRejected\<rparr>)"
  by (simp add: Validate_after_card Card_Validate_card0 validateCurrency_def Let_def
        ToUpper_usd supportedCurrencies_index_iff validateAmount_def)

theorem Validate_all_or_nothing_counterexample:
  "fst (Validate now0 id
          \<lparr>ID = [], Card = card0, Currency = ''usd'', Amount = 0, Status = StatusRejected\<rparr>)
     = Some ErrAmountInvalid \<and>
   Currency (snd (Validate now0 id
          \<lparr>ID = [], Card = card0, Currency = ''usd'', Amount = 0, Status = StatusRejected\<rparr>))
     = ''USD'' \<and>
   snd (Validate now0 id
          \<lparr>ID = [], Card = card0, Currency = ''usd'', Amount = 0, Status = StatusRejected\<rparr>)
     \<noteq> \<lparr>ID = [], Card = card0, Currency = ''usd'', Amount = 0, Status = StatusRejected\<rparr>"
  by (simp add: Validate_usd_zero)

theorem Validate_effects_witness:
  "Validate now0 id \<lparr>ID = [], Card = card0, Currency = ''usd'', Amount = 0, Status = StatusRejected\<rparr>
     = (Some ErrAmountInvalid,
        \<lparr>ID = [], Card = card0, Currency = ''USD'', Amount = 0, Status = StatusRejected\<rparr>) \<and>
   NewPayment now0 id card0 ''usd'' 0 = Inl ErrAmountInvalid"
  using Validate_effects
          [of now0 id
              "\<lparr>ID = [], Card = card0, Currency = ''usd'', Amount = 0, Status = StatusRejected\<rparr>"
              "Some ErrAmountInvalid"
              "\<lparr>ID = [], Card = card0, Currency = ''USD'', Amount = 0, Status = StatusRejected\<rparr>"]
        Validate_usd_zero card_error_not_amount[of now0 card0 ErrAmountInvalid]
        currency_error_not_amount[of id
          "\<lparr>ID = [], Card = card0, Currency = ''usd'', Amount = 0, Status = StatusRejected\<rparr>"
          ErrAmountInvalid]
  by (auto simp: Card_Validate_card0)

section \<open>The payment record store\<close>

text \<open>
  Claim C9. \<open>Save\<close> never fails, and looking the saved payment up by its id right after
  gives back that payment, so its status, currency and amount are the ones saved. \<open>Save\<close>
  is an upsert by id: the other ids are left as they were, and a later save under the
  same id replaces the earlier one. \<open>FindByID\<close> returns the stored payment whenever the
  store holds one for the id, answers \<open>(nil, nil)\<close> otherwise, and leaves the store as
  it is.
\<close>

theorem Save_FindByID_roundtrip:
  "fst (PaymentsRepository_Save r p) = None \<and>
   fst (PaymentsRepository_FindByID (snd (PaymentsRepository_Save r p)) (ID p)) = (Some p, None) \<and>
   (\<forall>q. fst (fst (PaymentsRepository_FindByID (snd (PaymentsRepository_Save r p)) (ID p))) = Some q
        \<longrightarrow> Status q = Status p \<and> Currency q = Currency p \<and> Amount q = Amount p) \<and>
   (\<forall>i. i \<noteq> ID p \<longrightarrow>
        fst (PaymentsRepository_FindByID (snd (PaymentsRepository_Save r p)) i)
          = fst (PaymentsRepository_FindByID r i)) \<and>
   (\<forall>p2. ID p2 = ID p \<longrightarrow>
        snd (PaymentsRepository_Save (snd (PaymentsRepository_Save r p)) p2)
          = snd (PaymentsRepository_Save r p2)) \<and>
   (\<forall>i q. payments r i = Some q \<longrightarrow> PaymentsRepository_FindByID r i = ((Some q, None), r)) \<and>
   (\<forall>i. payments r i = None \<longrightarrow> PaymentsRepository_FindByID r i = ((None, None), r))"
  by (auto simp: PaymentsRepository_Save_def PaymentsRepository_FindByID_def
           split: option.splits)

theorem Save_FindByID_roundtrip_witness:
  "fst (PaymentsRepository_FindByID
          (snd (PaymentsRepository_Save NewPaymentsRepository
             \<lparr>ID = ''id-1'', Card = card0, Currency = ''GBP'', Amount = 100, Status = StatusDeclined\<rparr>))
          ''id-1'')
     = (Some \<lparr>ID = ''id-1'', Card = card0, Currency = ''GBP'', Amount = 100, Status = StatusDeclined\<rparr>,
        None) \<and>
   fst (PaymentsRepository_FindByID
          (snd (PaymentsRepository_Save NewPaymentsRepository
             \<lparr>ID = ''id-1'', Card = card0, Currency = ''GBP'', Amount = 100, Status = StatusDeclined\<rparr>))
          ''id-2'')
     = (None, None) \<and>
   snd (PaymentsRepository_Save
          (snd (PaymentsRepository_Save NewPaymentsRepository
             \<lparr>ID = ''id-1'', Card = card0, Currency = ''GBP'', Amount = 100, Status = StatusDeclined\<rparr>))
          \<lparr>ID = ''id-1'', Card = card0, Currency = ''USD'', Amount = 5, Status = StatusAuthorized\<rparr>)
     = snd (PaymentsRepository_Save NewPaymentsRepository
          \<lparr>ID = ''id-1'', Card = card0, Currency = ''USD'', Amount = 5, Status = StatusAuthorized\<rparr>)"
proof -
  let ?p = "\<lparr>ID = ''id-1'', Card = card0, Currency = ''GBP'', Amount = 100, Status = StatusDeclined\<rparr>"
  let ?p2 = "\<lparr>ID = ''id-1'', Card = card0, Currency = ''USD'', Amount = 5, Status = StatusAuthorized\<rparr>"
  note t = Save_FindByID_roundtrip[of NewPaymentsRepository ?p]
  have a: "fst (PaymentsRepository_FindByID (snd (PaymentsRepository_Save NewPaymentsRepository ?p)) ''id-1'')
             = (Some ?p, None)"
    using t by simp
  have "fst (PaymentsRepository_FindByID (snd (PaymentsRepository_Save NewPaymentsRepository ?p)) ''id-2'')
          = fst (PaymentsRepository_FindByID NewPaymentsRepository ''id-2'')"
    using t by simp
  moreover have "PaymentsRepository_FindByID NewPaymentsRepository ''id-2''
          = ((None, None), NewPaymentsRepository)"
    using Save_FindByID_roundtrip[of NewPaymentsRepository ?p]
    by (simp add: NewPaymentsRepository_def)
  ultimately have b: "fst (PaymentsRepository_FindByID
       (snd (PaymentsRepository_Save NewPaymentsRepository ?p)) ''id-2'') = (None, None)"
    by simp
  have c: "snd (PaymentsRepository_Save (snd (PaymentsRepository_Save NewPaymentsRepository ?p)) ?p2)
          = snd (PaymentsRepository_Save NewPaymentsRepository ?p2)"
    using t by simp
  show ?thesis using a b c by simp
qed

section \<open>The identifier\<close>

text \<open>A byte is written as the two hexadecimal digits of its halves, and the digits
  determine the byte; so the text of a UUID determines its sixteen bytes.\<close>

lemma length_hex_Encode: "length (hex_Encode src) = 2 * length src"
  by (induction src) simp_all

lemma nibbles_determine_byte:
  fixes v w :: "8 word"
  assumes hi: "drop_bit 4 v = drop_bit 4 w" and lo: "v AND 0x0f = w AND 0x0f"
  shows "v = w"
proof -
  have m: "x AND 0x0f = take_bit 4 x" for x :: "8 word"
    by (simp add: take_bit_eq_mask mask_eq_exp_minus_1)
  have "v = push_bit 4 (drop_bit 4 v) + take_bit 4 v" by (simp add: bits_ident)
  also have "\<dots> = push_bit 4 (drop_bit 4 w) + take_bit 4 w" using hi lo by (simp add: m)
  also have "\<dots> = w" by (simp add: bits_ident)
  finally show ?thesis .
qed

lemma hi_nibble_less: "unat (drop_bit 4 (v :: 8 word)) < 16"
proof -
  have "unat (drop_bit 4 v) = unat v div 2 ^ 4" by (simp add: drop_bit_eq_div unat_div)
  moreover have "unat v < 2 ^ 8" using unsigned_less[of v] by simp
  ultimately show ?thesis by simp
qed

lemma lo_nibble_less: "unat ((v :: 8 word) AND 0x0f) < 16"
proof -
  have "unat (v AND 0x0f) \<le> unat (0x0f :: 8 word)"
    by (rule word_and_le1 [THEN word_le_nat_alt [THEN iffD1]])
  then show ?thesis by simp
qed

lemma hextable_nth_inj:
  "i < 16 \<Longrightarrow> j < 16 \<Longrightarrow> hextable ! i = hextable ! j \<Longrightarrow> i = j"
proof -
  have "distinct hextable" by (simp add: hextable_def)
  moreover have "length hextable = 16" by (simp add: hextable_def)
  ultimately show "i < 16 \<Longrightarrow> j < 16 \<Longrightarrow> hextable ! i = hextable ! j \<Longrightarrow> i = j"
    by (simp add: nth_eq_iff_index_eq)
qed

lemma hex_Encode_Cons_eq:
  assumes "hex_Encode (v # xs) = hex_Encode (w # zs)"
  shows "v = w \<and> hex_Encode xs = hex_Encode zs"
proof -
  from assms have hi: "hextable ! unat (drop_bit 4 v) = hextable ! unat (drop_bit 4 w)"
    and lo: "hextable ! unat (v AND 0x0f) = hextable ! unat (w AND 0x0f)"
    and rest: "hex_Encode xs = hex_Encode zs"
    by (simp_all only: hex_Encode.simps list.inject)
  have "unat (drop_bit 4 v) = unat (drop_bit 4 w)"
    using hi by (rule hextable_nth_inj[OF hi_nibble_less hi_nibble_less])
  then have h: "drop_bit 4 v = drop_bit 4 w" by (simp only: word_unat_eq_iff)
  have "unat (v AND 0x0f) = unat (w AND 0x0f)"
    using lo by (rule hextable_nth_inj[OF lo_nibble_less lo_nibble_less])
  then have l: "v AND 0x0f = w AND 0x0f" by (simp only: word_unat_eq_iff)
  from h l have "v = w" by (rule nibbles_determine_byte)
  with rest show ?thesis by blast
qed

lemma hex_Encode_inj: "hex_Encode xs = hex_Encode ys \<Longrightarrow> xs = ys"
proof (induction xs arbitrary: ys)
  case Nil
  then show ?case by (cases ys) simp_all
next
  case (Cons v xs)
  show ?case
  proof (cases ys)
    case Nil
    with Cons.prems show ?thesis by simp
  next
    case (Cons w zs)
    with Cons.prems have "hex_Encode (v # xs) = hex_Encode (w # zs)" by simp
    then have "v = w \<and> hex_Encode xs = hex_Encode zs" by (rule hex_Encode_Cons_eq)
    then have "v = w \<and> xs = zs" using Cons.IH[of zs] by blast
    with Cons show ?thesis by blast
  qed
qed

lemma UUID_String_nonempty: "UUID_String uuid \<noteq> []"
  by (simp add: UUID_String_def)

lemma length_UUID_String: "length uuid = 16 \<Longrightarrow> length (UUID_String uuid) = 36"
  by (simp add: UUID_String_def length_hex_Encode)

lemma UUID_String_inj:
  assumes lu: "length u = 16" and lv: "length v = 16" and eq: "UUID_String u = UUID_String v"
  shows "u = v"
proof -
  have e: "hex_Encode (take 4 u) = hex_Encode (take 4 v) \<and>
        hex_Encode (take 2 (drop 4 u)) = hex_Encode (take 2 (drop 4 v)) \<and>
        hex_Encode (take 2 (drop 6 u)) = hex_Encode (take 2 (drop 6 v)) \<and>
        hex_Encode (take 2 (drop 8 u)) = hex_Encode (take 2 (drop 8 v)) \<and>
        hex_Encode (drop 10 u) = hex_Encode (drop 10 v)"
    using eq lu lv by (simp add: UUID_String_def length_hex_Encode)
  then have p: "take 4 u = take 4 v" "take 2 (drop 4 u) = take 2 (drop 4 v)"
    "take 2 (drop 6 u) = take 2 (drop 6 v)" "take 2 (drop 8 u) = take 2 (drop 8 v)"
    "drop 10 u = drop 10 v"
    by (auto dest: hex_Encode_inj)
  have d8: "take 2 (drop 8 xs) @ drop 10 xs = drop 8 xs" for xs :: "8 word list"
  proof -
    have "drop 10 xs = drop 2 (drop 8 xs)" by simp
    then show ?thesis by (simp only: append_take_drop_id)
  qed
  have d6: "take 2 (drop 6 xs) @ drop 8 xs = drop 6 xs" for xs :: "8 word list"
  proof -
    have "drop 8 xs = drop 2 (drop 6 xs)" by simp
    then show ?thesis by (simp only: append_take_drop_id)
  qed
  have d4: "take 2 (drop 4 xs) @ drop 6 xs = drop 4 xs" for xs :: "8 word list"
  proof -
    have "drop 6 xs = drop 2 (drop 4 xs)" by simp
    then show ?thesis by (simp only: append_take_drop_id)
  qed
  have "drop 8 u = drop 8 v" using d8[of u] d8[of v] p(4,5) by metis
  then have "drop 6 u = drop 6 v" using d6[of u] d6[of v] p(3) by metis
  then have "drop 4 u = drop 4 v" using d4[of u] d4[of v] p(2) by metis
  then show ?thesis using p(1) by (metis append_take_drop_id)
qed

text \<open>What \<open>uuid.New\<close> keeps of a draw: two draws give the same UUID exactly when they
  agree once the overwritten bits are cleared.\<close>

lemma length_uuid_New: "length (uuid_New rnd) = length rnd"
  by (simp add: uuid_New_def Let_def)

lemma version_bits_eq:
  fixes a b :: "8 word"
  shows "((a AND 0x0f) OR 0x40 = (b AND 0x0f) OR 0x40) = (a AND 0x0f = b AND 0x0f)"
proof
  assume e: "(a AND 0x0f) OR 0x40 = (b AND 0x0f) OR 0x40"
  have c: "((x AND 0x0f) OR 0x40) AND 0x0f = x AND 0x0f" for x :: "8 word"
    by (simp add: bit.conj_disj_distrib2 and.assoc)
  from e have "((a AND 0x0f) OR 0x40) AND 0x0f = ((b AND 0x0f) OR 0x40) AND 0x0f" by simp
  then show "a AND 0x0f = b AND 0x0f" by (simp only: c)
next
  assume "a AND 0x0f = b AND 0x0f"
  then show "(a AND 0x0f) OR 0x40 = (b AND 0x0f) OR 0x40" by simp
qed

lemma variant_bits_eq:
  fixes a b :: "8 word"
  shows "((a AND 0x3f) OR 0x80 = (b AND 0x3f) OR 0x80) = (a AND 0x3f = b AND 0x3f)"
proof
  assume e: "(a AND 0x3f) OR 0x80 = (b AND 0x3f) OR 0x80"
  have c: "((x AND 0x3f) OR 0x80) AND 0x3f = x AND 0x3f" for x :: "8 word"
    by (simp add: bit.conj_disj_distrib2 and.assoc)
  from e have "((a AND 0x3f) OR 0x80) AND 0x3f = ((b AND 0x3f) OR 0x80) AND 0x3f" by simp
  then show "a AND 0x3f = b AND 0x3f" by (simp only: c)
next
  assume "a AND 0x3f = b AND 0x3f"
  then show "(a AND 0x3f) OR 0x80 = (b AND 0x3f) OR 0x80" by simp
qed


lemma uuid_New_nth:
  "length rnd = 16 \<Longrightarrow> length rnd2 = 16 \<Longrightarrow> i < 16 \<Longrightarrow>
   (uuid_New rnd2 ! i = uuid_New rnd ! i) =
   (rnd2[6 := rnd2 ! 6 AND 0x0f, 8 := rnd2 ! 8 AND 0x3f] ! i
      = rnd[6 := rnd ! 6 AND 0x0f, 8 := rnd ! 8 AND 0x3f] ! i)"
  by (simp add: uuid_New_def Let_def nth_list_update version_bits_eq variant_bits_eq)

lemma uuid_New_eq_iff:
  assumes "length rnd = 16" and "length rnd2 = 16"
  shows "(uuid_New rnd2 = uuid_New rnd) =
         (rnd2[6 := rnd2 ! 6 AND 0x0f, 8 := rnd2 ! 8 AND 0x3f]
            = rnd[6 := rnd ! 6 AND 0x0f, 8 := rnd ! 8 AND 0x3f])"
proof -
  have "(uuid_New rnd2 = uuid_New rnd) = (\<forall>i<16. uuid_New rnd2 ! i = uuid_New rnd ! i)"
    using assms by (simp add: list_eq_iff_nth_eq length_uuid_New)
  also have "\<dots> = (\<forall>i<16. rnd2[6 := rnd2 ! 6 AND 0x0f, 8 := rnd2 ! 8 AND 0x3f] ! i
                          = rnd[6 := rnd ! 6 AND 0x0f, 8 := rnd ! 8 AND 0x3f] ! i)"
    using uuid_New_nth[OF assms] by blast
  also have "\<dots> = (rnd2[6 := rnd2 ! 6 AND 0x0f, 8 := rnd2 ! 8 AND 0x3f]
                     = rnd[6 := rnd ! 6 AND 0x0f, 8 := rnd ! 8 AND 0x3f])"
    using assms by (simp add: list_eq_iff_nth_eq)
  finally show ?thesis .
qed

lemma uuid_New_draw0: "uuid_New draw0 = uuid0"
  by (simp add: uuid_New_def draw0_def uuid0_def)

lemma uuid_New_draw1: "uuid_New draw1 = uuid0"
  by (simp add: uuid_New_def draw1_def uuid0_def)

lemma uuid_New_draw2: "uuid_New draw2 = uuid1"
  by (simp add: uuid_New_def draw2_def uuid1_def)

section \<open>The authorization gateway adapter\<close>

lemma errors_Is_refl: "errors_Is e e"
  by (cases e) simp_all

lemma HTTPBankClient_after_read:
  "json_Marshal env (convertTobankRequest payment) = Inr jsonData \<Longrightarrow>
   http_NewRequest env ''POST'' (baseURL c @ ''/payments'') jsonData = Inr req0 \<Longrightarrow>
   httpClient_Do env (req0\<lparr>Header := (Header req0)(''Content-Type'' \<mapsto> ''application/json'')\<rparr>)
     = Inr resp \<Longrightarrow>
   Body resp = Inr body \<Longrightarrow>
   HTTPBankClient_ProcessPayment env c payment =
     (if StatusCode resp = 200 then
        (case json_Unmarshal env body of
           Inl err \<Rightarrow> Inl (fmt_Errorf_w ''failed to unmarshal bank response: '' err)
         | Inr bankResp \<Rightarrow> Inr bankResp)
      else if StatusCode resp = 400 then Inl (errors_New (''bank rejected request: '' @ body))
      else if StatusCode resp = 503 then Inl (errors_New ''bank service unavailable'')
      else Inl (errors_New (''unexpected response from bank: '' @ fmt_d (StatusCode resp)
                              @ '' - '' @ body)))"
  by (simp add: HTTPBankClient_ProcessPayment_def Let_def io_ReadAll_def)



lemma exampleEnv_simps:
  "json_Marshal (exampleEnv st b) bankReq = Inr ''{}''"
  "http_NewRequest (exampleEnv st b) m u jsonData
     = Inr \<lparr>Method = m, URL = u, Header = Map.empty, RequestBody = jsonData\<rparr>"
  "httpClient_Do (exampleEnv st b) req = Inr \<lparr>StatusCode = st, Body = Inr b\<rparr>"
  "json_Unmarshal (exampleEnv st b) ''{}'' = Inr \<lparr>Authorized = False, AuthorizationCode = []\<rparr>"
  "json_Unmarshal (exampleEnv st b) ''<html>'' = Inl (errors_New ''unexpected end of JSON input'')"
  by (simp_all add: exampleEnv_def)


section \<open>The payment orchestrator\<close>

lemma ProcessPayment_Inl:
  "bankClient s (payment\<lparr>ID := UUID_String uuid\<rparr>) = Inl err \<Longrightarrow>
   ProcessPayment s uuid r payment =
     (Inl (fmt_Errorf_w ''failed to process payment with bank: '' err),
      payment\<lparr>ID := UUID_String uuid\<rparr>, r)"
  by (simp add: ProcessPayment_def Let_def)

lemma ProcessPayment_Inr:
  "bankClient s (payment\<lparr>ID := UUID_String uuid\<rparr>) = Inr bankResp \<Longrightarrow>
   ProcessPayment s uuid r payment =
     (case Save (repository s) r
             (payment\<lparr>ID := UUID_String uuid,
                      Status := (if Authorized bankResp then StatusAuthorized else StatusDeclined)\<rparr>) of
        (Some err, r1) \<Rightarrow>
          (Inl (fmt_Errorf_w ''failed to save payment: '' err),
           payment\<lparr>ID := UUID_String uuid,
                   Status := (if Authorized bankResp then StatusAuthorized else StatusDeclined)\<rparr>,
           r1)
      | (None, r1) \<Rightarrow>
          (Inr (payment\<lparr>ID := UUID_String uuid,
                   Status := (if Authorized bankResp then StatusAuthorized else StatusDeclined)\<rparr>),
           payment\<lparr>ID := UUID_String uuid,
                   Status := (if Authorized bankResp then StatusAuthorized else StatusDeclined)\<rparr>,
           r1))"
  by (auto simp: ProcessPayment_def Let_def SetAuthorized_def SetDeclined_def
           split: prod.splits option.splits)

lemma ProcessPayment_returned_ID:
  "fst (ProcessPayment s uuid r payment) = Inr rec \<Longrightarrow> ID rec = UUID_String uuid"
  by (cases "bankClient s (payment\<lparr>ID := UUID_String uuid\<rparr>)")
     (auto simp: ProcessPayment_Inl ProcessPayment_Inr split: prod.splits option.splits)


lemma inMemory_Save:
  "Save inMemoryRepository store p = (None, store\<lparr>payments := (payments store)(ID p \<mapsto> p)\<rparr>)"
  by (simp add: inMemoryRepository_def PaymentsRepository_Save_def)

lemma inMemory_GetPayment_found:
  "payments store ident = Some p \<Longrightarrow>
   GetPayment (NewPaymentService bc inMemoryRepository) store ident = (Inr p, store)"
  by (simp add: GetPayment_def NewPaymentService_def inMemoryRepository_def
                PaymentsRepository_FindByID_def)

lemma mock_Save:
  "Save mockRepository m p = (SaveReturn m, m\<lparr>SaveCalls := SaveCalls m @ [p]\<rparr>)"
  by (simp add: mockRepository_def)


lemma UUID_String_uuid0: "UUID_String uuid0 = ''550e8400-e29b-41d4-a716-446655440000''"
  by (simp add: UUID_String_def uuid0_def hextable_def)

lemma UUID_String_uuid1: "UUID_String uuid1 = ''550e8400-e29b-41d4-a716-446655440001''"
  by (simp add: UUID_String_def uuid1_def hextable_def)

lemma NewPayment_payment0: "NewPayment now0 id card0 ''gbp'' 100 = Inr payment0"
proof -
  have up: "ToUpper id ''gbp'' = ''GBP''"
    by (simp add: ToUpper_def isASCII_def hasLower_def upperByte_def char_of_def bit_Suc_0_iff)
  have "Validate now0 id
          \<lparr>ID = [], Card = card0, Currency = ''gbp'', Amount = 100, Status = StatusRejected\<rparr>
        = (None, payment0)"
    by (simp add: Validate_after_card Card_Validate_card0 validateCurrency_def Let_def up
          supportedCurrencies_index_iff validateAmount_def payment0_def)
  then show ?thesis by (simp add: NewPayment_def)
qed


subsection \<open>The bank answers\<close>

text \<open>
  Claim C1, as amended. When the bank adapter answers with a response, \<open>ProcessPayment\<close>
  gives the payment the text of the UUID generated for the call as its id, sets its
  status to \<open>Authorized\<close> when the response's authorized flag is true and to \<open>Declined\<close>
  when it is false, and hands this finalized payment to the store's \<open>Save\<close>. When \<open>Save\<close>
  succeeds, as the in-memory store's always does, the finalized payment is returned, and
  the in-memory store then yields it under its id; when \<open>Save\<close> fails, the save error is
  returned, wrapped, and no payment. The id is never empty. The ids of two calls, on any
  payments, services and stores, are equal exactly when the two sixteen-byte draws of the
  generator agree in every bit but the six that \<open>uuid.New\<close> overwrites: a second call
  whose draw differs in any other bit returns a different id.
\<close>

theorem ProcessPayment_success:
  "bankClient s (payment\<lparr>ID := UUID_String (uuid_New rnd)\<rparr>) = Inr bankResp \<and>
   final = payment\<lparr>ID := UUID_String (uuid_New rnd),
                    Status := (if Authorized bankResp then StatusAuthorized else StatusDeclined)\<rparr>
   \<longrightarrow>
     (Authorized bankResp \<longrightarrow> Status final = StatusAuthorized) \<and>
     (\<not> Authorized bankResp \<longrightarrow> Status final = StatusDeclined) \<and>
     ID final \<noteq> [] \<and>
     (\<forall>r1. Save (repository s) r final = (None, r1) \<longrightarrow>
        ProcessPayment s (uuid_New rnd) r payment = (Inr final, final, r1)) \<and>
     (\<forall>err r1. Save (repository s) r final = (Some err, r1) \<longrightarrow>
        ProcessPayment s (uuid_New rnd) r payment
          = (Inl (fmt_Errorf_w ''failed to save payment: '' err), final, r1)) \<and>
     (\<forall>m. SaveReturn m = None \<longrightarrow>
        ProcessPayment (NewPaymentService (bankClient s) mockRepository) (uuid_New rnd) m payment
          = (Inr final, final, m\<lparr>SaveCalls := SaveCalls m @ [final]\<rparr>)) \<and>
     (\<forall>store.
        ProcessPayment (NewPaymentService (bankClient s) inMemoryRepository) (uuid_New rnd)
            store payment
          = (Inr final, final, store\<lparr>payments := (payments store)(ID final \<mapsto> final)\<rparr>) \<and>
        GetPayment (NewPaymentService (bankClient s) inMemoryRepository)
            (store\<lparr>payments := (payments store)(ID final \<mapsto> final)\<rparr>) (ID final)
          = (Inr final, store\<lparr>payments := (payments store)(ID final \<mapsto> final)\<rparr>)) \<and>
     (\<forall>rnd2 s2 r2 payment2 rec2.
        length rnd = 16 \<and> length rnd2 = 16 \<and>
        fst (ProcessPayment s2 (uuid_New rnd2) r2 payment2) = Inr rec2 \<longrightarrow>
        (ID rec2 = ID final) =
        (rnd2[6 := rnd2 ! 6 AND 0x0f, 8 := rnd2 ! 8 AND 0x3f]
           = rnd[6 := rnd ! 6 AND 0x0f, 8 := rnd ! 8 AND 0x3f]))"
proof (intro impI, elim conjE)
  assume a: "bankClient s (payment\<lparr>ID := UUID_String (uuid_New rnd)\<rparr>) = Inr bankResp"
    and f: "final = payment\<lparr>ID := UUID_String (uuid_New rnd),
                    Status := (if Authorized bankResp then StatusAuthorized else StatusDeclined)\<rparr>"
  have b: "bankClient (NewPaymentService (bankClient s) repo)
             (payment\<lparr>ID := UUID_String (uuid_New rnd)\<rparr>) = Inr bankResp"
    for repo :: "'c PaymentRepository"
    using a by (simp add: NewPaymentService_def)
  have rp: "repository (NewPaymentService bc repo) = repo"
    for bc and repo :: "'c PaymentRepository"
    by (simp add: NewPaymentService_def)
  have st1: "Authorized bankResp \<longrightarrow> Status final = StatusAuthorized"
    by (simp add: f)
  have st2: "\<not> Authorized bankResp \<longrightarrow> Status final = StatusDeclined"
    by (simp add: f)
  have idf: "ID final = UUID_String (uuid_New rnd)" by (simp add: f)
  then have ne: "ID final \<noteq> []" by (simp add: UUID_String_nonempty)
  have gen: "\<forall>r1. Save (repository s) r final = (None, r1) \<longrightarrow>
        ProcessPayment s (uuid_New rnd) r payment = (Inr final, final, r1)"
    by (simp add: ProcessPayment_Inr[OF a] f[symmetric])
  have fail: "\<forall>err r1. Save (repository s) r final = (Some err, r1) \<longrightarrow>
        ProcessPayment s (uuid_New rnd) r payment
          = (Inl (fmt_Errorf_w ''failed to save payment: '' err), final, r1)"
    by (simp add: ProcessPayment_Inr[OF a] f[symmetric])
  have mock: "\<forall>m. SaveReturn m = None \<longrightarrow>
        ProcessPayment (NewPaymentService (bankClient s) mockRepository) (uuid_New rnd) m payment
          = (Inr final, final, m\<lparr>SaveCalls := SaveCalls m @ [final]\<rparr>)"
    by (simp add: ProcessPayment_Inr[OF b] f[symmetric] rp mock_Save)
  have mem: "ProcessPayment (NewPaymentService (bankClient s) inMemoryRepository) (uuid_New rnd)
            store payment
          = (Inr final, final, store\<lparr>payments := (payments store)(ID final \<mapsto> final)\<rparr>)" for store
    by (simp add: ProcessPayment_Inr[OF b] f[symmetric] rp inMemory_Save)
  have get: "GetPayment (NewPaymentService (bankClient s) inMemoryRepository)
            (store\<lparr>payments := (payments store)(ID final \<mapsto> final)\<rparr>) (ID final)
          = (Inr final, store\<lparr>payments := (payments store)(ID final \<mapsto> final)\<rparr>)" for store
    by (rule inMemory_GetPayment_found) simp
  have memget: "\<forall>store.
        ProcessPayment (NewPaymentService (bankClient s) inMemoryRepository) (uuid_New rnd)
            store payment
          = (Inr final, final, store\<lparr>payments := (payments store)(ID final \<mapsto> final)\<rparr>) \<and>
        GetPayment (NewPaymentService (bankClient s) inMemoryRepository)
            (store\<lparr>payments := (payments store)(ID final \<mapsto> final)\<rparr>) (ID final)
          = (Inr final, store\<lparr>payments := (payments store)(ID final \<mapsto> final)\<rparr>)"
    using mem get by (intro allI conjI)
  have dist: "\<forall>rnd2 s2 r2 payment2 rec2.
        length rnd = 16 \<and> length rnd2 = 16 \<and>
        fst (ProcessPayment s2 (uuid_New rnd2) r2 payment2) = Inr rec2 \<longrightarrow>
        (ID rec2 = ID final) =
        (rnd2[6 := rnd2 ! 6 AND 0x0f, 8 := rnd2 ! 8 AND 0x3f]
           = rnd[6 := rnd ! 6 AND 0x0f, 8 := rnd ! 8 AND 0x3f])"
  proof (intro allI impI, elim conjE)
    fix rnd2 and s2 :: "'d PaymentService" and r2 payment2 rec2
    assume l: "length rnd = 16" "length rnd2 = 16"
      and p: "fst (ProcessPayment s2 (uuid_New rnd2) r2 payment2) = Inr rec2"
    have i2: "ID rec2 = UUID_String (uuid_New rnd2)"
      using p by (rule ProcessPayment_returned_ID)
    have l2: "length (uuid_New rnd2) = 16" "length (uuid_New rnd) = 16"
      using l by (simp_all only: length_uuid_New)
    have "(UUID_String (uuid_New rnd2) = UUID_String (uuid_New rnd))
            = (uuid_New rnd2 = uuid_New rnd)"
    proof
      assume "UUID_String (uuid_New rnd2) = UUID_String (uuid_New rnd)"
      then show "uuid_New rnd2 = uuid_New rnd" by (rule UUID_String_inj[OF l2])
    next
      assume "uuid_New rnd2 = uuid_New rnd"
      then show "UUID_String (uuid_New rnd2) = UUID_String (uuid_New rnd)" by (rule arg_cong)
    qed
    also have "\<dots> = (rnd2[6 := rnd2 ! 6 AND 0x0f, 8 := rnd2 ! 8 AND 0x3f]
                       = rnd[6 := rnd ! 6 AND 0x0f, 8 := rnd ! 8 AND 0x3f])"
      by (rule uuid_New_eq_iff[OF l])
    finally show "(ID rec2 = ID final) =
        (rnd2[6 := rnd2 ! 6 AND 0x0f, 8 := rnd2 ! 8 AND 0x3f]
           = rnd[6 := rnd ! 6 AND 0x0f, 8 := rnd ! 8 AND 0x3f])"
      by (simp only: i2 idf)
  qed
  show "(Authorized bankResp \<longrightarrow> Status final = StatusAuthorized) \<and>
     (\<not> Authorized bankResp \<longrightarrow> Status final = StatusDeclined) \<and>
     ID final \<noteq> [] \<and>
     (\<forall>r1. Save (repository s) r final = (None, r1) \<longrightarrow>
        ProcessPayment s (uuid_New rnd) r payment = (Inr final, final, r1)) \<and>
     (\<forall>err r1. Save (repository s) r final = (Some err, r1) \<longrightarrow>
        ProcessPayment s (uuid_New rnd) r payment
          = (Inl (fmt_Errorf_w ''failed to save payment: '' err), final, r1)) \<and>
     (\<forall>m. SaveReturn m = None \<longrightarrow>
        ProcessPayment (NewPaymentService (bankClient s) mockRepository) (uuid_New rnd) m payment
          = (Inr final, final, m\<lparr>SaveCalls := SaveCalls m @ [final]\<rparr>)) \<and>
     (\<forall>store.
        ProcessPayment (NewPaymentService (bankClient s) inMemoryRepository) (uuid_New rnd)
            store payment
          = (Inr final, final, store\<lparr>payments := (payments store)(ID final \<mapsto> final)\<rparr>) \<and>
        GetPayment (NewPaymentService (bankClient s) inMemoryRepository)
            (store\<lparr>payments := (payments store)(ID final \<mapsto> final)\<rparr>) (ID final)
          = (Inr final, store\<lparr>payments := (payments store)(ID final \<mapsto> final)\<rparr>)) \<and>
     (\<forall>rnd2 s2 r2 payment2 rec2.
        length rnd = 16 \<and> length rnd2 = 16 \<and>
        fst (ProcessPayment s2 (uuid_New rnd2) r2 payment2) = Inr rec2 \<longrightarrow>
        (ID rec2 = ID final) =
        (rnd2[6 := rnd2 ! 6 AND 0x0f, 8 := rnd2 ! 8 AND 0x3f]
           = rnd[6 := rnd ! 6 AND 0x0f, 8 := rnd ! 8 AND 0x3f]))"
    using st1 st2 ne gen fail mock memget dist by (intro conjI)
qed

lemma NewPayment_payment0_250: "NewPayment now0 id card0 ''gbp'' 250 = Inr (payment0\<lparr>Amount := 250\<rparr>)"
proof -
  have up: "ToUpper id ''gbp'' = ''GBP''"
    by (simp add: ToUpper_def isASCII_def hasLower_def upperByte_def char_of_def bit_Suc_0_iff)
  have "Validate now0 id
          \<lparr>ID = [], Card = card0, Currency = ''gbp'', Amount = 250, Status = StatusRejected\<rparr>
        = (None, payment0\<lparr>Amount := 250\<rparr>)"
    by (simp add: Validate_after_card Card_Validate_card0 validateCurrency_def Let_def up
          supportedCurrencies_index_iff validateAmount_def payment0_def)
  then show ?thesis by (simp add: NewPayment_def)
qed

lemma NewPaymentService_sel:
  "bankClient (NewPaymentService bc repo) = bc"
  "repository (NewPaymentService bc repo) = repo"
  by (simp_all add: NewPaymentService_def)

lemma bankAnswers_True:
  "bankClient (NewPaymentService (bankAnswers True) repo) p
     = Inr \<lparr>Authorized = True, AuthorizationCode = ''auth-code-123''\<rparr>"
  by (simp add: NewPaymentService_def bankAnswers_def)

lemma ProcessPayment_authorised_inMemory:
  "ProcessPayment (NewPaymentService (bankAnswers True) inMemoryRepository) uuid store p
     = (Inr (p\<lparr>ID := UUID_String uuid, Status := StatusAuthorized\<rparr>),
        p\<lparr>ID := UUID_String uuid, Status := StatusAuthorized\<rparr>,
        store\<lparr>payments := (payments store)
           (UUID_String uuid \<mapsto> p\<lparr>ID := UUID_String uuid, Status := StatusAuthorized\<rparr>)\<rparr>)"
  by (simp add: ProcessPayment_Inr[OF bankAnswers_True] NewPaymentService_sel inMemory_Save)

lemma ProcessPayment_authorised_mock:
  "ProcessPayment (NewPaymentService (bankAnswers True) mockRepository) uuid
       \<lparr>SaveCalls = [], SaveReturn = Some err, FindReturn = (None, None)\<rparr> p
     = (Inl (fmt_Errorf_w ''failed to save payment: '' err),
        p\<lparr>ID := UUID_String uuid, Status := StatusAuthorized\<rparr>,
        \<lparr>SaveCalls = [p\<lparr>ID := UUID_String uuid, Status := StatusAuthorized\<rparr>],
         SaveReturn = Some err, FindReturn = (None, None)\<rparr>)"
  by (simp add: ProcessPayment_Inr[OF bankAnswers_True] NewPaymentService_sel mock_Save)


text \<open>
  The claim as first stated fails in two places. With a store whose \<open>Save\<close> fails, the
  bank has answered and yet no payment is returned. And two different valid payments,
  processed with two different draws that differ only in bits \<open>uuid.New\<close> overwrites,
  get the same id.
\<close>

theorem ProcessPayment_success_counterexample:
  "fst (ProcessPayment (NewPaymentService (bankAnswers True) mockRepository) (uuid_New draw0)
          \<lparr>SaveCalls = [], SaveReturn = Some (errors_New ''database error''),
           FindReturn = (None, None)\<rparr> payment0)
     = Inl (fmt_Errorf_w ''failed to save payment: '' (errors_New ''database error'')) \<and>
   NewPayment now0 id card0 ''gbp'' 100 = Inr payment0 \<and>
   NewPayment now0 id card0 ''gbp'' 250 = Inr (payment0\<lparr>Amount := 250\<rparr>) \<and>
   payment0\<lparr>Amount := 250\<rparr> \<noteq> payment0 \<and>
   draw1 \<noteq> draw0 \<and>
   fst (ProcessPayment (NewPaymentService (bankAnswers True) inMemoryRepository) (uuid_New draw0)
          NewPaymentsRepository payment0)
     = Inr (payment0\<lparr>ID := ''550e8400-e29b-41d4-a716-446655440000'', Status := ''Authorized''\<rparr>) \<and>
   fst (ProcessPayment (NewPaymentService (bankAnswers True) inMemoryRepository) (uuid_New draw1)
          (snd (snd (ProcessPayment (NewPaymentService (bankAnswers True) inMemoryRepository)
                       (uuid_New draw0) NewPaymentsRepository payment0)))
          (payment0\<lparr>Amount := 250\<rparr>))
     = Inr (payment0\<lparr>Amount := 250, ID := ''550e8400-e29b-41d4-a716-446655440000'',
                     Status := ''Authorized''\<rparr>)"
proof -
  have d: "draw1 \<noteq> draw0" by (simp add: draw0_def draw1_def)
  have p: "payment0\<lparr>Amount := 250\<rparr> \<noteq> payment0" by (simp add: payment0_def)
  show ?thesis
    using d p
    by (simp add: ProcessPayment_authorised_mock ProcessPayment_authorised_inMemory
          uuid_New_draw0 uuid_New_draw1 UUID_String_uuid0 StatusAuthorized_def
          NewPayment_payment0 NewPayment_payment0_250)
qed


theorem ProcessPayment_success_witness:
  "NewPayment now0 id card0 ''gbp'' 100 = Inr payment0 \<and>
   ProcessPayment (NewPaymentService (bankAnswers True) inMemoryRepository) (uuid_New draw0)
       NewPaymentsRepository payment0
     = (Inr (payment0\<lparr>ID := ''550e8400-e29b-41d4-a716-446655440000'', Status := ''Authorized''\<rparr>),
        payment0\<lparr>ID := ''550e8400-e29b-41d4-a716-446655440000'', Status := ''Authorized''\<rparr>,
        \<lparr>payments = [''550e8400-e29b-41d4-a716-446655440000'' \<mapsto>
            payment0\<lparr>ID := ''550e8400-e29b-41d4-a716-446655440000'', Status := ''Authorized''\<rparr>]\<rparr>) \<and>
   fst (ProcessPayment (NewPaymentService (bankAnswers False) inMemoryRepository) (uuid_New draw2)
       NewPaymentsRepository (payment0\<lparr>Amount := 250\<rparr>))
     = Inr (payment0\<lparr>Amount := 250, ID := ''550e8400-e29b-41d4-a716-446655440001'',
                     Status := ''Declined''\<rparr>) \<and>
   ID (payment0\<lparr>Amount := 250, ID := UUID_String (uuid_New draw2), Status := ''Declined''\<rparr>)
     \<noteq> ID (payment0\<lparr>ID := UUID_String (uuid_New draw0), Status := ''Authorized''\<rparr>)"
proof -
  let ?s = "NewPaymentService (bankAnswers True) inMemoryRepository"
  let ?d = "NewPaymentService (bankAnswers False) inMemoryRepository"
  let ?f0 = "payment0\<lparr>ID := UUID_String (uuid_New draw0), Status := StatusAuthorized\<rparr>"
  let ?g1 = "payment0\<lparr>Amount := 250, ID := UUID_String (uuid_New draw2), Status := StatusDeclined\<rparr>"
  have bc: "bankClient (NewPaymentService bc repo) = bc"
    for bc and repo :: "PaymentsRepository PaymentRepository"
    by (simp add: NewPaymentService_def)
  have h0: "bankClient ?s (payment0\<lparr>ID := UUID_String (uuid_New draw0)\<rparr>)
              = Inr \<lparr>Authorized = True, AuthorizationCode = ''auth-code-123''\<rparr> \<and>
            ?f0 = payment0\<lparr>ID := UUID_String (uuid_New draw0),
                    Status := (if Authorized \<lparr>Authorized = True, AuthorizationCode = ''auth-code-123''\<rparr>
                               then StatusAuthorized else StatusDeclined)\<rparr>"
    by (simp add: bc bankAnswers_def)
  note T0 = ProcessPayment_success[where r = NewPaymentsRepository, rule_format, OF h0]
  have first: "ProcessPayment ?s (uuid_New draw0) NewPaymentsRepository payment0
     = (Inr ?f0, ?f0, NewPaymentsRepository\<lparr>payments := (payments NewPaymentsRepository)(ID ?f0 \<mapsto> ?f0)\<rparr>)"
    using T0[THEN conjunct2, THEN conjunct2, THEN conjunct2, THEN conjunct2, THEN conjunct2,
             THEN conjunct2, THEN conjunct1, rule_format, THEN conjunct1,
             of NewPaymentsRepository]
    by (simp only: bc)
  have h2: "bankClient ?d (payment0\<lparr>Amount := 250, ID := UUID_String (uuid_New draw2)\<rparr>)
              = Inr \<lparr>Authorized = False, AuthorizationCode = []\<rparr> \<and>
            ?g1 = payment0\<lparr>Amount := 250, ID := UUID_String (uuid_New draw2),
                    Status := (if Authorized \<lparr>Authorized = False, AuthorizationCode = []\<rparr>
                               then StatusAuthorized else StatusDeclined)\<rparr>"
    by (simp add: bc bankAnswers_def)
  note T2 = ProcessPayment_success
              [where r = NewPaymentsRepository and payment = "payment0\<lparr>Amount := 250\<rparr>",
               rule_format, OF h2]
  have declined: "fst (ProcessPayment ?d (uuid_New draw2) NewPaymentsRepository
                         (payment0\<lparr>Amount := 250\<rparr>)) = Inr ?g1"
    using T2[THEN conjunct2, THEN conjunct2, THEN conjunct2, THEN conjunct2, THEN conjunct2,
             THEN conjunct2, THEN conjunct1, rule_format, THEN conjunct1,
             of NewPaymentsRepository]
    by (simp only: bc fst_conv)
  have differ: "ID ?g1 \<noteq> ID ?f0"
  proof -
    have pre: "length draw0 = 16 \<and> length draw2 = 16 \<and>
          fst (ProcessPayment ?d (uuid_New draw2) NewPaymentsRepository
                 (payment0\<lparr>Amount := 250\<rparr>)) = Inr ?g1"
      using declined by (simp add: draw0_def draw2_def)
    have ne: "draw2[6 := draw2 ! 6 AND 0x0f, 8 := draw2 ! 8 AND 0x3f]
                \<noteq> draw0[6 := draw0 ! 6 AND 0x0f, 8 := draw0 ! 8 AND 0x3f]"
      by (simp add: draw0_def draw2_def)
    have "(ID ?g1 = ID ?f0) =
          (draw2[6 := draw2 ! 6 AND 0x0f, 8 := draw2 ! 8 AND 0x3f]
             = draw0[6 := draw0 ! 6 AND 0x0f, 8 := draw0 ! 8 AND 0x3f])"
      by (rule T0[THEN conjunct2, THEN conjunct2, THEN conjunct2, THEN conjunct2,
                  THEN conjunct2, THEN conjunct2, THEN conjunct2, rule_format, OF pre])
    with ne show ?thesis by blast
  qed
  show ?thesis
    using first declined differ NewPayment_payment0
    by (simp add: uuid_New_draw0 uuid_New_draw2 UUID_String_uuid0 UUID_String_uuid1
          StatusAuthorized_def StatusDeclined_def NewPaymentsRepository_def)
qed

subsection \<open>The bank does not answer\<close>

text \<open>
  Claim C2. When the bank adapter fails, for whatever reason, \<open>ProcessPayment\<close> returns
  no payment but an error that wraps the adapter's error: unwrapping it gives the
  adapter's error, and its message is the adapter's message behind the prefix
  \<open>failed to process payment with bank: \<close>. The store is not called: its state is the
  one before the call, the test double has recorded no call of \<open>Save\<close>, and the in-memory
  store holds what it held.
\<close>

theorem ProcessPayment_bank_failure:
  "bankClient s (payment\<lparr>ID := UUID_String uuid\<rparr>) = Inl err \<longrightarrow>
     ProcessPayment s uuid r payment =
       (Inl (fmt_Errorf_w ''failed to process payment with bank: '' err),
        payment\<lparr>ID := UUID_String uuid\<rparr>, r) \<and>
     (\<forall>rec. fst (ProcessPayment s uuid r payment) \<noteq> Inr rec) \<and>
     (\<forall>e. fst (ProcessPayment s uuid r payment) = Inl e \<longrightarrow>
        Unwrap e = Some err \<and> errors_Is e err \<and>
        Error e = ''failed to process payment with bank: '' @ Error err) \<and>
     (\<forall>m. SaveCalls (snd (snd (ProcessPayment (NewPaymentService (bankClient s) mockRepository)
                                  uuid m payment))) = SaveCalls m) \<and>
     (\<forall>store. snd (snd (ProcessPayment (NewPaymentService (bankClient s) inMemoryRepository)
                          uuid store payment)) = store)"
proof
  assume a: "bankClient s (payment\<lparr>ID := UUID_String uuid\<rparr>) = Inl err"
  have b: "bankClient (NewPaymentService (bankClient s) repo) (payment\<lparr>ID := UUID_String uuid\<rparr>)
             = Inl err" for repo :: "'b PaymentRepository"
    using a by (simp add: NewPaymentService_def)
  show "ProcessPayment s uuid r payment =
       (Inl (fmt_Errorf_w ''failed to process payment with bank: '' err),
        payment\<lparr>ID := UUID_String uuid\<rparr>, r) \<and>
     (\<forall>rec. fst (ProcessPayment s uuid r payment) \<noteq> Inr rec) \<and>
     (\<forall>e. fst (ProcessPayment s uuid r payment) = Inl e \<longrightarrow>
        Unwrap e = Some err \<and> errors_Is e err \<and>
        Error e = ''failed to process payment with bank: '' @ Error err) \<and>
     (\<forall>m. SaveCalls (snd (snd (ProcessPayment (NewPaymentService (bankClient s) mockRepository)
                                  uuid m payment))) = SaveCalls m) \<and>
     (\<forall>store. snd (snd (ProcessPayment (NewPaymentService (bankClient s) inMemoryRepository)
                          uuid store payment)) = store)"
    by (simp add: ProcessPayment_Inl[OF a] ProcessPayment_Inl[OF b] errors_Is_refl)
qed

lemma exampleEnv_unavailable:
  "HTTPBankClient_ProcessPayment (exampleEnv 503 body) c payment
     = Inl (errors_New ''bank service unavailable'')"
proof -
  let ?req = "\<lparr>Method = ''POST'', URL = baseURL c @ ''/payments'', Header = Map.empty,
               RequestBody = ''{}''\<rparr>"
  have "HTTPBankClient_ProcessPayment (exampleEnv 503 body) c payment =
     (if StatusCode \<lparr>StatusCode = 503, Body = Inr body\<rparr> = 200 then
        (case json_Unmarshal (exampleEnv 503 body) body of
           Inl err \<Rightarrow> Inl (fmt_Errorf_w ''failed to unmarshal bank response: '' err)
         | Inr bankResp \<Rightarrow> Inr bankResp)
      else if StatusCode \<lparr>StatusCode = 503, Body = Inr body\<rparr> = 400
        then Inl (errors_New (''bank rejected request: '' @ body))
      else if StatusCode \<lparr>StatusCode = 503, Body = Inr body\<rparr> = 503
        then Inl (errors_New ''bank service unavailable'')
      else Inl (errors_New (''unexpected response from bank: ''
                              @ fmt_d (StatusCode \<lparr>StatusCode = 503, Body = Inr body\<rparr>)
                              @ '' - '' @ body)))"
    by (rule HTTPBankClient_after_read[where jsonData = "''{}''" and ?req0.0 = ?req])
       (simp_all only: exampleEnv_simps HTTPResponse.simps)
  then show ?thesis by simp
qed

theorem ProcessPayment_bank_failure_witness:
  "ProcessPayment
     (NewPaymentService
        (HTTPBankClient_ProcessPayment (exampleEnv 503 []) \<lparr>baseURL = ''http://localhost:8081''\<rparr>)
        mockRepository)
     uuid0 \<lparr>SaveCalls = [], SaveReturn = None, FindReturn = (None, None)\<rparr> payment0
   = (Inl (fmt_Errorf_w ''failed to process payment with bank: ''
             (errors_New ''bank service unavailable'')),
      payment0\<lparr>ID := UUID_String uuid0\<rparr>,
      \<lparr>SaveCalls = [], SaveReturn = None, FindReturn = (None, None)\<rparr>)"
  using ProcessPayment_bank_failure
          [where s = "NewPaymentService
                 (HTTPBankClient_ProcessPayment (exampleEnv 503 [])
                    \<lparr>baseURL = ''http://localhost:8081''\<rparr>)
                 mockRepository"
             and payment = payment0 and uuid = uuid0
             and err = "errors_New ''bank service unavailable''"
             and r = "\<lparr>SaveCalls = [], SaveReturn = None, FindReturn = (None, None)\<rparr>"]
  by (simp add: NewPaymentService_def exampleEnv_unavailable)

subsection \<open>What the store keeps\<close>

text \<open>
  Claim C3 says that the full card number and the CVV are never retained in the persisted
  record. The store keeps the payment it is given as a whole: after \<open>ProcessPayment\<close> on
  the in-memory store, the record that \<open>GetPayment\<close> finds under the payment's id carries
  the sixteen digits of the card number and the CVV. Only the response built from that
  record is cut down to the last four digits.
\<close>

theorem stored_record_retains_card:
  "fst (GetPayment (NewPaymentService (bankAnswers True) inMemoryRepository)
          (snd (snd (ProcessPayment (NewPaymentService (bankAnswers True) inMemoryRepository)
                       uuid0 NewPaymentsRepository payment0)))
          ''550e8400-e29b-41d4-a716-446655440000'')
     = Inr \<lparr>ID = ''550e8400-e29b-41d4-a716-446655440000'',
            Card = \<lparr>Number = ''2222405343248877'', ExpiryMonth = 12, ExpiryYear = 2030,
                    CVV = ''123''\<rparr>,
            Currency = ''GBP'', Amount = 100, Status = ''Authorized''\<rparr> \<and>
   get_CardNumberLastFour
     (ToGetPaymentResponse
        \<lparr>ID = ''550e8400-e29b-41d4-a716-446655440000'',
         Card = \<lparr>Number = ''2222405343248877'', ExpiryMonth = 12, ExpiryYear = 2030,
                 CVV = ''123''\<rparr>,
         Currency = ''GBP'', Amount = 100, Status = ''Authorized''\<rparr>) = ''8877''"
proof -
  let ?s = "NewPaymentService (bankAnswers True) inMemoryRepository"
  let ?f0 = "payment0\<lparr>ID := UUID_String uuid0, Status := StatusAuthorized\<rparr>"
  have b: "bankClient ?s (payment0\<lparr>ID := UUID_String uuid0\<rparr>)
             = Inr \<lparr>Authorized = True, AuthorizationCode = ''auth-code-123''\<rparr>"
    by (simp add: NewPaymentService_def bankAnswers_def)
  have rp: "repository ?s = inMemoryRepository" by (simp add: NewPaymentService_def)
  have p: "ProcessPayment ?s uuid0 NewPaymentsRepository payment0
     = (Inr ?f0, ?f0, NewPaymentsRepository\<lparr>payments := (payments NewPaymentsRepository)(ID ?f0 \<mapsto> ?f0)\<rparr>)"
    by (simp add: ProcessPayment_Inr[OF b] rp inMemory_Save)
  have g: "GetPayment ?s
            (NewPaymentsRepository\<lparr>payments := (payments NewPaymentsRepository)(ID ?f0 \<mapsto> ?f0)\<rparr>) (ID ?f0)
          = (Inr ?f0, NewPaymentsRepository\<lparr>payments := (payments NewPaymentsRepository)(ID ?f0 \<mapsto> ?f0)\<rparr>)"
    by (rule inMemory_GetPayment_found) simp
  have l: "GetLastFourDigits card0 = ''8877''"
    by (simp add: GetLastFourDigits_def card0_def)
  show ?thesis
    using p g l
    by (simp add: UUID_String_uuid0 payment0_def card0_def StatusAuthorized_def
          ToGetPaymentResponse_def)
qed

end
